theory Spec2Isabelle
  imports Main "HOL-Library.Word"
begin

unbundle bit_operations_syntax

section \<open>Error codes and the error channel\<close>

text \<open>
  The error kinds of \<^verbatim>\<open>grub_err_t\<close> that \<^verbatim>\<open>gpt.c\<close> raises or passes through.
  \<^verbatim>\<open>GRUB_ERR_NONE\<close> is the absence of an error: a \<^verbatim>\<open>grub_err_t\<close> result is a
  \<open>grub_error option\<close>, \<open>None\<close> for \<^verbatim>\<open>GRUB_ERR_NONE\<close>. An error carries the message
  given to \<^verbatim>\<open>grub_error\<close> (the format string, arguments not rendered).
\<close>

datatype grub_err_t =
    GRUB_ERR_OUT_OF_MEMORY
  | GRUB_ERR_BAD_PART_TABLE
  | GRUB_ERR_BAD_ARGUMENT
  | GRUB_ERR_OUT_OF_RANGE
  | GRUB_ERR_NOT_IMPLEMENTED_YET
  | GRUB_ERR_BUG
  | GRUB_ERR_IO
  | GRUB_ERR_OTHER nat

type_synonym grub_error = "grub_err_t \<times> string"

text \<open>
  The process-wide error slot \<^verbatim>\<open>grub_errno\<close> (with its message) and the error stack.
  Every function of \<^verbatim>\<open>gpt.c\<close> that returns a \<^verbatim>\<open>grub_err_t\<close> other than
  \<^verbatim>\<open>GRUB_ERR_NONE\<close> has left exactly that error in \<^verbatim>\<open>grub_errno\<close>
  (it returns \<^verbatim>\<open>grub_error (...)\<close> or \<^verbatim>\<open>grub_errno\<close>), and leaves
  \<^verbatim>\<open>grub_errno\<close> alone when it succeeds. The functions that only
  return such a code are therefore modelled by their return value; the functions that push,
  pop, clear or read the slot take the error state and return it.
\<close>

record grub_err_state =
  grub_errno :: "grub_error option"
  grub_error_stack :: "grub_error option list"

definition grub_error :: "grub_err_t \<Rightarrow> string \<Rightarrow> grub_err_state \<Rightarrow> grub_err_state" where
  "grub_error n msg es = es\<lparr>grub_errno := Some (n, msg)\<rparr>"

text \<open>What a failing callee has done to the slot: \<open>None\<close> leaves it as it was.\<close>

definition set_errno :: "grub_error option \<Rightarrow> grub_err_state \<Rightarrow> grub_err_state" where
  "set_errno r es = (case r of None \<Rightarrow> es | Some e \<Rightarrow> es\<lparr>grub_errno := Some e\<rparr>)"

text \<open>
  Modelled from the spec: \<^verbatim>\<open>grub_error_push\<close> and \<^verbatim>\<open>grub_error_pop\<close> (the
  bootloader's error reporter, not under src/). "Errors compose via push/pop so callers can
  layer additional context without losing the original message": push saves the active
  error on the stack and resets the slot, pop restores the most recently saved error into
  the slot (no error when nothing was saved).
\<close>

definition grub_error_push :: "grub_err_state \<Rightarrow> grub_err_state" where
  "grub_error_push es =
     es\<lparr>grub_error_stack := grub_errno es # grub_error_stack es, grub_errno := None\<rparr>"

definition grub_error_pop :: "grub_err_state \<Rightarrow> grub_err_state" where
  "grub_error_pop es =
     (case grub_error_stack es of
        [] \<Rightarrow> es\<lparr>grub_errno := None\<rparr>
      | e # rest \<Rightarrow> es\<lparr>grub_errno := e, grub_error_stack := rest\<rparr>)"

section \<open>Bytes and little-endian fields\<close>

text \<open>
  On-medium fields are little-endian; a field of a structure is held by its numeric value,
  so \<^verbatim>\<open>grub_le_to_cpu32\<close>, \<^verbatim>\<open>grub_cpu_to_le64\<close> and the like are the identity.
  A fixed-length byte array is held as a word, byte \<open>i\<close> in bits \<open>8 i .. 8 i + 7\<close>.
\<close>

type_synonym byte = "8 word"

definition le_bytes :: "nat \<Rightarrow> 'a::len word \<Rightarrow> byte list" where
  "le_bytes n w = map (\<lambda>i. ucast (drop_bit (8 * i) w)) [0..<n]"

definition le_word :: "byte list \<Rightarrow> 'a::len word" where
  "le_word bs = foldr (\<lambda>b acc. ucast b OR push_bit 8 acc) bs 0"

definition grub_swap_bytes32 :: "32 word \<Rightarrow> 32 word" where
  "grub_swap_bytes32 x =
     push_bit 24 x OR (push_bit 8 x AND 0x00FF0000) OR
     (drop_bit 8 x AND 0x0000FF00) OR drop_bit 24 x"

section \<open>Collaborators outside the library\<close>

text \<open>
  What \<^verbatim>\<open>gpt.c\<close> takes from the rest of the bootloader, as parameters:
  \<^item> \<open>md_crc32\<close>: the word \<^verbatim>\<open>grub_crypto_hash (GRUB_MD_CRC32, ...)\<close> stores for a
    byte range (the CRC-32 primitive is a library dependency);
  \<^item> \<open>malloc_ok\<close>: whether the allocator grants a request of that many bytes
    (\<^verbatim>\<open>grub_malloc\<close>, \<^verbatim>\<open>grub_zalloc\<close>, \<^verbatim>\<open>grub_xasprintf\<close> return NULL and
    set \<^verbatim>\<open>GRUB_ERR_OUT_OF_MEMORY\<close> otherwise);
  \<^item> \<open>stray_byte\<close>: the bytes of memory that follow the \<^verbatim>\<open>mbr\<close> member of the
    handle, read by \<^verbatim>\<open>grub_gpt_pmbr_check\<close> when it runs past the four entries.
\<close>

record grub_env =
  md_crc32 :: "byte list \<Rightarrow> 32 word"
  malloc_ok :: "nat \<Rightarrow> bool"
  stray_byte :: "nat \<Rightarrow> byte"

definition out_of_memory :: grub_error where
  "out_of_memory = (GRUB_ERR_OUT_OF_MEMORY, ''out of memory'')"

text \<open>
  Modelled from the spec: the block device (\<^verbatim>\<open>grub_disk_t\<close>, \<^verbatim>\<open>grub_disk_read\<close>,
  \<^verbatim>\<open>grub_disk_write\<close>; not under src/). "Sized reads and writes at logical-block
  addresses", with fields \<^verbatim>\<open>log_sector_size\<close> and \<^verbatim>\<open>total_sectors\<close>; the address
  given to a read or write counts 512-byte blocks. \<open>media\<close> is the content by byte offset;
  \<open>read_fault\<close> and \<open>write_fault\<close> say which transfers (address, length) the device
  fails, and with which error.
\<close>

record grub_disk =
  disk_log_sector_size :: "32 word"
  total_sectors :: "64 word"
  media :: "nat \<Rightarrow> byte"
  read_fault :: "64 word \<Rightarrow> nat \<Rightarrow> grub_error option"
  write_fault :: "64 word \<Rightarrow> nat \<Rightarrow> grub_error option"

text \<open>
  Modelled from the spec: \<^verbatim>\<open>GRUB_DISK_SECTOR_BITS\<close> (of \<^verbatim>\<open>grub/disk.h\<close>, not
  under src/), the 9 of "any sector count shifted by \<open>(log_sector_size - 9)\<close>": device
  addresses count blocks of \<open>2 ^ 9\<close> bytes. A read that fails leaves its destination as
  it was.
\<close>

definition GRUB_DISK_SECTOR_BITS :: "32 word" where
  "GRUB_DISK_SECTOR_BITS = 9"

definition grub_disk_read :: "grub_disk \<Rightarrow> 64 word \<Rightarrow> nat \<Rightarrow> grub_error + byte list" where
  "grub_disk_read disk addr len =
     (case read_fault disk addr len of
        Some e \<Rightarrow> Inl e
      | None \<Rightarrow> Inr (map (media disk) [unat addr * 512 ..< unat addr * 512 + len]))"

text \<open>A write handed to the device (accepted or refused by it): where, and what.\<close>

type_synonym disk_write = "64 word \<times> byte list"

definition grub_disk_write :: "grub_disk \<Rightarrow> 64 word \<Rightarrow> nat \<Rightarrow> grub_error option" where
  "grub_disk_write disk addr len = write_fault disk addr len"

section \<open>The GPT structures\<close>

text \<open>
  Modelled from the spec: \<^verbatim>\<open>struct grub_gpt_guid\<close>, \<^verbatim>\<open>struct grub_gpt_header\<close>,
  \<^verbatim>\<open>struct grub_gpt\<close>, the status bits and the constants of
  \<^verbatim>\<open>grub/gpt_partition.h\<close> (not under src/). The header has the fields of the
  spec's table, in its order, with the widths \<^verbatim>\<open>gpt.c\<close> reads them at; packed, it is
  92 bytes, the native header size. The field \<^verbatim>\<open>end\<close> is \<open>end_lba\<close> here.
\<close>

record grub_gpt_guid =
  data1 :: "32 word"
  data2 :: "16 word"
  data3 :: "16 word"
  data4 :: "64 word"

record grub_gpt_header =
  magic :: "64 word"
  version :: "32 word"
  headersize :: "32 word"
  crc32 :: "32 word"
  unused1 :: "32 word"
  header_lba :: "64 word"
  alternate_lba :: "64 word"
  start :: "64 word"
  end_lba :: "64 word"
  guid :: grub_gpt_guid
  partitions :: "64 word"
  maxpart :: "32 word"
  partentry_size :: "32 word"
  partentry_crc32 :: "32 word"

definition sizeof_header :: nat where
  "sizeof_header = 92"

text \<open>The bytes 'E' 'F' 'I' ' ' 'P' 'A' 'R' 'T', first byte lowest.\<close>

definition grub_gpt_magic :: "64 word" where
  "grub_gpt_magic = 0x5452415020494645"

definition GRUB_GPT_HEADER_VERSION :: "32 word" where
  "GRUB_GPT_HEADER_VERSION = 0x00010000"

definition GRUB_GPT_DEFAULT_ENTRIES_SIZE :: "64 word" where
  "GRUB_GPT_DEFAULT_ENTRIES_SIZE = 16384"

definition guid_bytes :: "grub_gpt_guid \<Rightarrow> byte list" where
  "guid_bytes g =
     le_bytes 4 (data1 g) @ le_bytes 2 (data2 g) @ le_bytes 2 (data3 g) @ le_bytes 8 (data4 g)"

definition guid_of_bytes :: "byte list \<Rightarrow> grub_gpt_guid" where
  "guid_of_bytes bs =
     \<lparr>data1 = le_word (take 4 bs), data2 = le_word (take 2 (drop 4 bs)),
      data3 = le_word (take 2 (drop 6 bs)), data4 = le_word (take 8 (drop 8 bs))\<rparr>"

definition header_bytes :: "grub_gpt_header \<Rightarrow> byte list" where
  "header_bytes h =
     le_bytes 8 (magic h) @ le_bytes 4 (version h) @ le_bytes 4 (headersize h) @
     le_bytes 4 (crc32 h) @ le_bytes 4 (unused1 h) @ le_bytes 8 (header_lba h) @
     le_bytes 8 (alternate_lba h) @ le_bytes 8 (start h) @ le_bytes 8 (end_lba h) @
     guid_bytes (guid h) @ le_bytes 8 (partitions h) @ le_bytes 4 (maxpart h) @
     le_bytes 4 (partentry_size h) @ le_bytes 4 (partentry_crc32 h)"

definition header_of_bytes :: "byte list \<Rightarrow> grub_gpt_header" where
  "header_of_bytes bs =
     \<lparr>magic = le_word (take 8 bs),
      version = le_word (take 4 (drop 8 bs)),
      headersize = le_word (take 4 (drop 12 bs)),
      crc32 = le_word (take 4 (drop 16 bs)),
      unused1 = le_word (take 4 (drop 20 bs)),
      header_lba = le_word (take 8 (drop 24 bs)),
      alternate_lba = le_word (take 8 (drop 32 bs)),
      start = le_word (take 8 (drop 40 bs)),
      end_lba = le_word (take 8 (drop 48 bs)),
      guid = guid_of_bytes (take 16 (drop 56 bs)),
      partitions = le_word (take 8 (drop 72 bs)),
      maxpart = le_word (take 4 (drop 80 bs)),
      partentry_size = le_word (take 4 (drop 84 bs)),
      partentry_crc32 = le_word (take 4 (drop 88 bs))\<rparr>"

section \<open>CRC engine\<close>

definition grub_gpt_lecrc32 :: "grub_env \<Rightarrow> byte list \<Rightarrow> nat \<Rightarrow> 32 word" where
  "grub_gpt_lecrc32 env data len = grub_swap_bytes32 (md_crc32 env (take len data))"

definition grub_gpt_header_lecrc32 :: "grub_env \<Rightarrow> grub_gpt_header \<Rightarrow> 32 word" where
  "grub_gpt_header_lecrc32 env header =
     grub_gpt_lecrc32 env (header_bytes (header\<lparr>crc32 := 0\<rparr>)) sizeof_header"

section \<open>Header validation\<close>

definition grub_gpt_entries_size :: "grub_gpt_header \<Rightarrow> 64 word" where
  "grub_gpt_entries_size gpt = ucast (maxpart gpt) * ucast (partentry_size gpt)"

definition grub_gpt_entries_sectors :: "grub_gpt_header \<Rightarrow> 32 word \<Rightarrow> 64 word" where
  "grub_gpt_entries_sectors gpt log_sector_size =
     (let sector_bytes = push_bit (unat log_sector_size) (1 :: 64 word);
          entries_bytes = grub_gpt_entries_size gpt
      in (entries_bytes + sector_bytes - 1) div sector_bytes)"

definition is_pow2 :: "32 word \<Rightarrow> bool" where
  "is_pow2 n = (n AND (n - 1) = 0)"

definition bad_part_table :: "string \<Rightarrow> grub_error" where
  "bad_part_table msg = (GRUB_ERR_BAD_PART_TABLE, msg)"

definition grub_gpt_header_check ::
  "grub_env \<Rightarrow> grub_gpt_header \<Rightarrow> 32 word \<Rightarrow> grub_error option" where
  "grub_gpt_header_check env gpt log_sector_size =
     (if magic gpt \<noteq> grub_gpt_magic then
        Some (bad_part_table ''invalid GPT signature'')
      else if version gpt \<noteq> GRUB_GPT_HEADER_VERSION then
        Some (bad_part_table ''unknown GPT version'')
      else if crc32 gpt \<noteq> grub_gpt_header_lecrc32 env gpt then
        Some (bad_part_table ''invalid GPT header crc32'')
      else if headersize gpt < 92 \<or>
              headersize gpt > push_bit (unat log_sector_size) (1 :: 32 word) then
        Some (bad_part_table ''invalid GPT header size'')
      else if partentry_size gpt < 128 \<or> partentry_size gpt mod 128 \<noteq> 0 \<or>
              \<not> is_pow2 (partentry_size gpt div 128) then
        Some (bad_part_table ''invalid GPT entry size'')
      else if grub_gpt_entries_size gpt < GRUB_GPT_DEFAULT_ENTRIES_SIZE then
        Some (bad_part_table ''invalid GPT entry table size'')
      else if start gpt > end_lba gpt then
        Some (bad_part_table ''invalid usable sectors'')
      else None)"

section \<open>The handle\<close>

text \<open>
  Modelled from the spec: the status bitmask "with independent bits" and the helpers
  \<^verbatim>\<open>grub_gpt_primary_valid\<close>, \<^verbatim>\<open>grub_gpt_backup_valid\<close>,
  \<^verbatim>\<open>grub_gpt_both_valid\<close> (a copy is valid when its header bit and its entries bit
  are both set). Each bit is a distinct single bit of the word.
\<close>

definition GRUB_GPT_PROTECTIVE_MBR :: "32 word" where
  "GRUB_GPT_PROTECTIVE_MBR = 0x01"

definition GRUB_GPT_PRIMARY_HEADER_VALID :: "32 word" where
  "GRUB_GPT_PRIMARY_HEADER_VALID = 0x04"

definition GRUB_GPT_PRIMARY_ENTRIES_VALID :: "32 word" where
  "GRUB_GPT_PRIMARY_ENTRIES_VALID = 0x08"

definition GRUB_GPT_BACKUP_HEADER_VALID :: "32 word" where
  "GRUB_GPT_BACKUP_HEADER_VALID = 0x10"

definition GRUB_GPT_BACKUP_ENTRIES_VALID :: "32 word" where
  "GRUB_GPT_BACKUP_ENTRIES_VALID = 0x20"

definition GRUB_GPT_PRIMARY_VALID :: "32 word" where
  "GRUB_GPT_PRIMARY_VALID = GRUB_GPT_PRIMARY_HEADER_VALID OR GRUB_GPT_PRIMARY_ENTRIES_VALID"

definition GRUB_GPT_BACKUP_VALID :: "32 word" where
  "GRUB_GPT_BACKUP_VALID = GRUB_GPT_BACKUP_HEADER_VALID OR GRUB_GPT_BACKUP_ENTRIES_VALID"

definition GRUB_GPT_BOTH_VALID :: "32 word" where
  "GRUB_GPT_BOTH_VALID = GRUB_GPT_PRIMARY_VALID OR GRUB_GPT_BACKUP_VALID"

text \<open>
  The handle. \<open>mbr\<close> is the 512-byte block of sector 0; \<open>entries\<close> is the owned
  buffer (NULL is the empty list) and \<open>entries_size\<close> its \<^verbatim>\<open>grub_size_t\<close> length,
  64 bits wide.
\<close>

record grub_gpt =
  status :: "32 word"
  mbr :: "byte list"
  primary :: grub_gpt_header
  backup :: grub_gpt_header
  entries :: "byte list"
  entries_size :: "64 word"
  log_sector_size :: "32 word"

text \<open>A pointer to one of the two header members of a handle.\<close>

datatype header_ref = PRIMARY | BACKUP

fun deref :: "grub_gpt \<Rightarrow> header_ref \<Rightarrow> grub_gpt_header" where
  "deref gpt PRIMARY = primary gpt"
| "deref gpt BACKUP = backup gpt"

definition grub_gpt_primary_valid :: "grub_gpt \<Rightarrow> bool" where
  "grub_gpt_primary_valid gpt =
     (status gpt AND GRUB_GPT_PRIMARY_VALID = GRUB_GPT_PRIMARY_VALID)"

definition grub_gpt_backup_valid :: "grub_gpt \<Rightarrow> bool" where
  "grub_gpt_backup_valid gpt =
     (status gpt AND GRUB_GPT_BACKUP_VALID = GRUB_GPT_BACKUP_VALID)"

definition grub_gpt_both_valid :: "grub_gpt \<Rightarrow> bool" where
  "grub_gpt_both_valid gpt =
     (status gpt AND GRUB_GPT_BOTH_VALID = GRUB_GPT_BOTH_VALID)"

text \<open>
  Modelled from the spec: \<^verbatim>\<open>grub_gpt_sector_to_addr\<close> (inline helper of
  \<^verbatim>\<open>grub/gpt_partition.h\<close>, not under src/). The byte offset of a sector is
  \<open>sector \<times> (1 << log_sector_size)\<close>; the device is addressed in 512-byte blocks, so the
  address is the sector shifted by \<open>log_sector_size - 9\<close>, the rescaling that
  \<^verbatim>\<open>grub_gpt_disk_size_valid\<close> applies to a sector count.
\<close>

definition grub_gpt_sector_to_addr :: "grub_gpt \<Rightarrow> 64 word \<Rightarrow> 64 word" where
  "grub_gpt_sector_to_addr gpt sector =
     push_bit (unat (log_sector_size gpt - GRUB_DISK_SECTOR_BITS)) sector"

section \<open>Queries and geometry\<close>

definition grub_gpt_get_header ::
  "grub_gpt \<Rightarrow> grub_err_state \<Rightarrow> header_ref option \<times> grub_err_state" where
  "grub_gpt_get_header gpt es =
     (if status gpt AND GRUB_GPT_PRIMARY_HEADER_VALID \<noteq> 0 then (Some PRIMARY, es)
      else if status gpt AND GRUB_GPT_BACKUP_HEADER_VALID \<noteq> 0 then (Some BACKUP, es)
      else (None, grub_error GRUB_ERR_BUG ''No valid GPT header'' es))"

definition grub_gpt_size_to_sectors :: "grub_gpt \<Rightarrow> 64 word \<Rightarrow> 64 word" where
  "grub_gpt_size_to_sectors gpt sz =
     (let sector_size = push_bit (unat (log_sector_size gpt)) (1 :: 32 word);
          sectors = sz div ucast sector_size
      in if sz mod ucast sector_size \<noteq> 0 then sectors + 1 else sectors)"

definition grub_gpt_disk_size_valid :: "grub_disk \<Rightarrow> bool" where
  "grub_gpt_disk_size_valid disk =
     (let total =
            push_bit (unat (disk_log_sector_size disk - GRUB_DISK_SECTOR_BITS))
              (total_sectors disk)
      in \<not> total > push_bit 51 1)"

section \<open>Protective MBR\<close>

text \<open>
  Modelled from the spec: \<^verbatim>\<open>struct grub_msdos_partition_mbr\<close> (not under src/), "a
  legacy 512-byte record whose signature is 0xAA55 at the last two bytes, containing four
  16-byte primary entries", the type byte of an entry at its offset 4 and the protective
  type 0xEE. The loop of \<^verbatim>\<open>grub_gpt_pmbr_check\<close> runs \<open>i\<close> up to
  \<^verbatim>\<open>sizeof (mbr->entries)\<close>, 64: from \<open>i = 4\<close> on, \<^verbatim>\<open>entries[i].type\<close> is the
  byte at offset \<open>450 + 16 i\<close> from the start of the block, past its end.
\<close>

definition mbr_signature :: "byte list \<Rightarrow> 16 word" where
  "mbr_signature m = le_word (take 2 (drop 510 m))"

definition mbr_entry_type :: "grub_env \<Rightarrow> byte list \<Rightarrow> nat \<Rightarrow> byte" where
  "mbr_entry_type env m i =
     (if 450 + 16 * i < length m then m ! (450 + 16 * i)
      else stray_byte env (450 + 16 * i - length m))"

definition grub_gpt_pmbr_check :: "grub_env \<Rightarrow> byte list \<Rightarrow> grub_error option" where
  "grub_gpt_pmbr_check env m =
     (if mbr_signature m \<noteq> 0xAA55 then
        Some (bad_part_table ''invalid MBR signature'')
      else if \<exists>i \<in> set [0..<64]. mbr_entry_type env m i = 0xEE then None
      else Some (bad_part_table ''invalid protective MBR''))"

section \<open>Sanity of each copy\<close>

definition grub_gpt_headers_equal :: "grub_gpt \<Rightarrow> bool" where
  "grub_gpt_headers_equal gpt =
     (if headersize (primary gpt) \<noteq> headersize (backup gpt) \<or>
         header_lba (primary gpt) \<noteq> alternate_lba (backup gpt) \<or>
         alternate_lba (primary gpt) \<noteq> header_lba (backup gpt) \<or>
         start (primary gpt) \<noteq> start (backup gpt) \<or>
         end_lba (primary gpt) \<noteq> end_lba (backup gpt) \<or>
         maxpart (primary gpt) \<noteq> maxpart (backup gpt) \<or>
         partentry_size (primary gpt) \<noteq> partentry_size (backup gpt) \<or>
         partentry_crc32 (primary gpt) \<noteq> partentry_crc32 (backup gpt)
      then False
      else guid_bytes (guid (primary gpt)) = guid_bytes (guid (backup gpt)))"

definition grub_gpt_check_primary :: "grub_env \<Rightarrow> grub_gpt \<Rightarrow> grub_error option" where
  "grub_gpt_check_primary env gpt =
     (let primary_lba = header_lba (primary gpt);
          backup_lba = alternate_lba (primary gpt);
          entries_lba = partitions (primary gpt);
          entries_len = grub_gpt_entries_sectors (primary gpt) (log_sector_size gpt);
          start_lba = start (primary gpt);
          end_sector = end_lba (primary gpt)
      in case grub_gpt_header_check env (primary gpt) (log_sector_size gpt) of
           Some e \<Rightarrow> Some e
         | None \<Rightarrow>
             if primary_lba \<noteq> 1 then Some (bad_part_table ''invalid primary GPT LBA'')
             else if entries_lba \<le> 1 \<or> entries_lba + entries_len > start_lba then
               Some (bad_part_table ''invalid entries location'')
             else if backup_lba \<le> end_sector then
               Some (bad_part_table ''invalid backup GPT LBA'')
             else None)"

definition backup_out_of_sync :: grub_error where
  "backup_out_of_sync = (GRUB_ERR_BAD_PART_TABLE, ''backup GPT out of sync'')"

definition grub_gpt_check_backup :: "grub_env \<Rightarrow> grub_gpt \<Rightarrow> grub_error option" where
  "grub_gpt_check_backup env gpt =
     (let backup_lba = header_lba (backup gpt);
          primary_lba = alternate_lba (backup gpt);
          entries_lba = partitions (backup gpt);
          entries_len = grub_gpt_entries_sectors (backup gpt) (log_sector_size gpt);
          start_lba = start (backup gpt);
          end_sector = end_lba (backup gpt)
      in case grub_gpt_header_check env (backup gpt) (log_sector_size gpt) of
           Some e \<Rightarrow> Some e
         | None \<Rightarrow>
             if primary_lba \<noteq> 1 then Some (bad_part_table ''invalid primary GPT LBA'')
             else if entries_lba \<le> end_sector \<or> entries_lba + entries_len > backup_lba then
               Some (bad_part_table ''invalid entries location'')
             else if backup_lba \<le> end_sector then
               Some (bad_part_table ''invalid backup GPT LBA'')
             else if status gpt AND GRUB_GPT_PRIMARY_HEADER_VALID \<noteq> 0 \<and>
                     \<not> grub_gpt_headers_equal gpt then
               Some backup_out_of_sync
             else None)"

section \<open>Reader\<close>

text \<open>
  \<^verbatim>\<open>grub_gpt_read_entries\<close>. \<^verbatim>\<open>count\<close> and \<^verbatim>\<open>size\<close> are
  \<^verbatim>\<open>grub_uint32_t\<close>, so \<^verbatim>\<open>count * size\<close> is a 32-bit product; it is widened to
  \<^verbatim>\<open>grub_size_t\<close> only when stored in \<^verbatim>\<open>entries_size\<close>. The result is the buffer
  and its size, or the error left in \<^verbatim>\<open>grub_errno\<close>.
\<close>

definition grub_gpt_read_entries ::
  "grub_env \<Rightarrow> grub_disk \<Rightarrow> grub_gpt \<Rightarrow> grub_gpt_header \<Rightarrow>
     grub_error + (byte list \<times> 64 word)" where
  "grub_gpt_read_entries env disk gpt header =
     (let count = maxpart header;
          sz = partentry_size header;
          entries_sz = (ucast (count * sz) :: 64 word)
      in if sz \<noteq> 0 \<and> entries_sz div ucast sz \<noteq> ucast count then Inl out_of_memory
         else if entries_sz < GRUB_GPT_DEFAULT_ENTRIES_SIZE then
           Inl (GRUB_ERR_BUG, ''invalid GPT entries table size'')
         else if \<not> malloc_ok env (unat entries_sz) then Inl out_of_memory
         else
           (case grub_disk_read disk (grub_gpt_sector_to_addr gpt (partitions header))
                   (unat entries_sz) of
              Inl e \<Rightarrow> Inl e
            | Inr buf \<Rightarrow>
                if grub_gpt_lecrc32 env buf (unat entries_sz) \<noteq> partentry_crc32 header then
                  Inl (bad_part_table ''invalid GPT entry crc32'')
                else Inr (buf, entries_sz)))"

definition grub_gpt_read_primary ::
  "grub_env \<Rightarrow> grub_disk \<Rightarrow> grub_gpt \<Rightarrow> grub_error option \<times> grub_gpt" where
  "grub_gpt_read_primary env disk gpt0 =
     (let gpt1 = gpt0\<lparr>log_sector_size := disk_log_sector_size disk\<rparr>;
          addr = grub_gpt_sector_to_addr gpt1 1
      in case grub_disk_read disk addr sizeof_header of
           Inl e \<Rightarrow> (Some e, gpt1)
         | Inr bytes \<Rightarrow>
             (let gpt2 = gpt1\<lparr>primary := header_of_bytes bytes\<rparr>
              in case grub_gpt_check_primary env gpt2 of
                   Some e \<Rightarrow> (Some e, gpt2)
                 | None \<Rightarrow>
                     (let gpt3 = gpt2\<lparr>status := status gpt2 OR GRUB_GPT_PRIMARY_HEADER_VALID\<rparr>
                      in case grub_gpt_read_entries env disk gpt3 (primary gpt3) of
                           Inl e \<Rightarrow> (Some e, gpt3)
                         | Inr (buf, n) \<Rightarrow>
                             (None, gpt3\<lparr>entries := buf, entries_size := n,
                                status := status gpt3 OR GRUB_GPT_PRIMARY_ENTRIES_VALID\<rparr>))))"

text \<open>
  Where \<^verbatim>\<open>grub_gpt_read_backup\<close> looks for the backup header: the sector, or the
  \<^verbatim>\<open>GRUB_ERR_OUT_OF_RANGE\<close> error it returns before any read.
\<close>

definition backup_sector :: "grub_disk \<Rightarrow> grub_gpt \<Rightarrow> grub_error + 64 word" where
  "backup_sector disk gpt =
     (if status gpt AND GRUB_GPT_PRIMARY_HEADER_VALID \<noteq> 0 then
        (let sector = alternate_lba (primary gpt)
         in if grub_gpt_disk_size_valid disk \<and> sector \<ge> total_sectors disk then
              Inl (GRUB_ERR_OUT_OF_RANGE,
                   ''backup GPT located at 0x%llx, beyond last disk sector at 0x%llx'')
            else Inr sector)
      else if grub_gpt_disk_size_valid disk then Inr (total_sectors disk - 1)
      else Inl (GRUB_ERR_OUT_OF_RANGE, ''size of disk unknown, cannot locate backup GPT''))"

definition grub_gpt_read_backup ::
  "grub_env \<Rightarrow> grub_disk \<Rightarrow> grub_gpt \<Rightarrow> grub_error option \<times> grub_gpt" where
  "grub_gpt_read_backup env disk gpt0 =
     (case backup_sector disk gpt0 of
        Inl e \<Rightarrow> (Some e, gpt0)
      | Inr sector \<Rightarrow>
          (case grub_disk_read disk (grub_gpt_sector_to_addr gpt0 sector) sizeof_header of
             Inl e \<Rightarrow> (Some e, gpt0)
           | Inr bytes \<Rightarrow>
               (let gpt1 = gpt0\<lparr>backup := header_of_bytes bytes\<rparr>
                in case grub_gpt_check_backup env gpt1 of
                     Some e \<Rightarrow> (Some e, gpt1)
                   | None \<Rightarrow>
                       if header_lba (backup gpt1) \<noteq> sector then
                         (Some (bad_part_table ''invalid backup GPT LBA''), gpt1)
                       else
                         (let gpt2 = gpt1\<lparr>status :=
                                       status gpt1 OR GRUB_GPT_BACKUP_HEADER_VALID\<rparr>
                          in case grub_gpt_read_entries env disk gpt2 (backup gpt2) of
                               Inl e \<Rightarrow> (Some e, gpt2)
                             | Inr (buf, n) \<Rightarrow>
                                 if status gpt2 AND GRUB_GPT_PRIMARY_ENTRIES_VALID \<noteq> 0 then
                                   (if n \<noteq> entries_size gpt2 \<or>
                                       take (unat n) buf \<noteq> take (unat n) (entries gpt2)
                                    then (Some backup_out_of_sync, gpt2)
                                    else (None, gpt2\<lparr>status :=
                                            status gpt2 OR GRUB_GPT_BACKUP_ENTRIES_VALID\<rparr>))
                                 else
                                   (None, gpt2\<lparr>entries := buf, entries_size := n,
                                      status :=
                                        status gpt2 OR GRUB_GPT_BACKUP_ENTRIES_VALID\<rparr>)))))"

text \<open>The handle \<^verbatim>\<open>grub_zalloc\<close> returns: every byte zero.\<close>

definition zero_header :: grub_gpt_header where
  "zero_header = header_of_bytes (replicate sizeof_header 0)"

definition zero_gpt :: grub_gpt where
  "zero_gpt =
     \<lparr>status = 0, mbr = replicate 512 0, primary = zero_header, backup = zero_header,
      entries = [], entries_size = 0, log_sector_size = 0\<rparr>"

text \<open>The allocator's request for a handle; only the oracle \<open>malloc_ok\<close> sees it.\<close>

definition sizeof_gpt :: nat where
  "sizeof_gpt = 4 + 512 + 2 * sizeof_header + 8 + 8 + 4"

text \<open>The handle after sector 0 has been read and the status bit for the MBR decided.\<close>

definition gpt_with_mbr :: "grub_env \<Rightarrow> byte list \<Rightarrow> grub_gpt" where
  "gpt_with_mbr env m =
     (let gpt = zero_gpt\<lparr>mbr := m\<rparr>
      in case grub_gpt_pmbr_check env m of
           Some e \<Rightarrow> gpt
         | None \<Rightarrow> gpt\<lparr>status := status gpt OR GRUB_GPT_PROTECTIVE_MBR\<rparr>)"

text \<open>
  \<^verbatim>\<open>grub_gpt_read\<close>: the handle, or \<open>None\<close> for NULL (the handle freed), and the
  error state it leaves.
\<close>

definition grub_gpt_read ::
  "grub_env \<Rightarrow> grub_disk \<Rightarrow> grub_err_state \<Rightarrow> grub_gpt option \<times> grub_err_state" where
  "grub_gpt_read env disk es0 =
     (if \<not> malloc_ok env sizeof_gpt then (None, es0\<lparr>grub_errno := Some out_of_memory\<rparr>)
      else
        (case grub_disk_read disk 0 512 of
           Inl e \<Rightarrow> (None, es0\<lparr>grub_errno := Some e\<rparr>)
         | Inr m \<Rightarrow>
             (let es1 = (case grub_gpt_pmbr_check env m of
                           Some e \<Rightarrow> es0\<lparr>grub_errno := None\<rparr>
                         | None \<Rightarrow> es0);
                  gpt0 = gpt_with_mbr env m;
                  (gpt2, es2) =
                    (case grub_gpt_read_primary env disk gpt0 of
                       (Some e, gpt1) \<Rightarrow>
                         (let esa = grub_error_push (es1\<lparr>grub_errno := Some e\<rparr>);
                              (rb, gptb) = grub_gpt_read_backup env disk gpt1
                          in (gptb, grub_error_pop (set_errno rb esa)))
                     | (None, gpt1) \<Rightarrow>
                         (let (rb, gptb) = grub_gpt_read_backup env disk gpt1
                          in (gptb, set_errno rb es1)))
              in if grub_gpt_primary_valid gpt2 \<or> grub_gpt_backup_valid gpt2 then
                   (Some gpt2, es2\<lparr>grub_errno := None\<rparr>)
                 else (None, es2))))"

definition grub_gpt_get_partentry ::
  "grub_gpt \<Rightarrow> 32 word \<Rightarrow> grub_err_state \<Rightarrow> 64 word option \<times> grub_err_state" where
  "grub_gpt_get_partentry gpt n es =
     (case grub_gpt_get_header gpt es of
        (None, es') \<Rightarrow> (None, es')
      | (Some r, es') \<Rightarrow>
          if n \<ge> maxpart (deref gpt r) then (None, es')
          else (Some (ucast (partentry_size (deref gpt r)) * ucast n), es'))"

section \<open>Updater and repairer\<close>

definition all_valid_bits :: "32 word" where
  "all_valid_bits =
     GRUB_GPT_PRIMARY_HEADER_VALID OR GRUB_GPT_PRIMARY_ENTRIES_VALID OR
     GRUB_GPT_BACKUP_HEADER_VALID OR GRUB_GPT_BACKUP_ENTRIES_VALID"

text \<open>The handle \<^verbatim>\<open>grub_gpt_update\<close> has built when it starts to re-validate.\<close>

definition update_prepare :: "grub_env \<Rightarrow> grub_gpt \<Rightarrow> grub_gpt" where
  "update_prepare env gpt0 =
     (let gpt1 = gpt0\<lparr>status := status gpt0 AND NOT all_valid_bits\<rparr>;
          gpt2 = gpt1\<lparr>primary := (primary gpt1)\<lparr>headersize := of_nat sizeof_header\<rparr>\<rparr>;
          gpt3 = gpt2\<lparr>backup := (backup gpt2)\<lparr>headersize := of_nat sizeof_header\<rparr>\<rparr>;
          crc = grub_gpt_lecrc32 env (entries gpt3) (unat (entries_size gpt3));
          gpt4 = gpt3\<lparr>primary := (primary gpt3)\<lparr>partentry_crc32 := crc\<rparr>\<rparr>;
          gpt5 = gpt4\<lparr>backup := (backup gpt4)\<lparr>partentry_crc32 := crc\<rparr>\<rparr>;
          gpt6 = gpt5\<lparr>primary :=
                   (primary gpt5)\<lparr>crc32 := grub_gpt_header_lecrc32 env (primary gpt5)\<rparr>\<rparr>
      in gpt6\<lparr>backup := (backup gpt6)\<lparr>crc32 := grub_gpt_header_lecrc32 env (backup gpt6)\<rparr>\<rparr>)"

definition grub_gpt_update ::
  "grub_env \<Rightarrow> grub_gpt \<Rightarrow> grub_err_state \<Rightarrow>
     grub_error option \<times> grub_gpt \<times> grub_err_state" where
  "grub_gpt_update env gpt0 es =
     (let gpt1 = update_prepare env gpt0
      in case grub_gpt_check_primary env gpt1 of
           Some e \<Rightarrow>
             (Some (GRUB_ERR_BUG, ''Generated invalid GPT primary header''), gpt1,
              grub_error GRUB_ERR_BUG ''Generated invalid GPT primary header''
                (grub_error_push (es\<lparr>grub_errno := Some e\<rparr>)))
         | None \<Rightarrow>
             (let gpt2 = gpt1\<lparr>status := status gpt1 OR
                           (GRUB_GPT_PRIMARY_HEADER_VALID OR GRUB_GPT_PRIMARY_ENTRIES_VALID)\<rparr>
              in case grub_gpt_check_backup env gpt2 of
                   Some e \<Rightarrow>
                     (Some (GRUB_ERR_BUG, ''Generated invalid GPT backup header''), gpt2,
                      grub_error GRUB_ERR_BUG ''Generated invalid GPT backup header''
                        (grub_error_push (es\<lparr>grub_errno := Some e\<rparr>)))
                 | None \<Rightarrow>
                     (None,
                      gpt2\<lparr>status := status gpt2 OR
                        (GRUB_GPT_BACKUP_HEADER_VALID OR GRUB_GPT_BACKUP_ENTRIES_VALID)\<rparr>,
                      es)))"

text \<open>
  The two branches of \<^verbatim>\<open>grub_gpt_repair\<close>, up to the call of the updater: the
  backup rebuilt from the primary, and the primary rebuilt from the backup.
\<close>

definition repair_from_primary :: "grub_disk \<Rightarrow> grub_gpt \<Rightarrow> grub_gpt" where
  "repair_from_primary disk gpt0 =
     (let backup_header0 = alternate_lba (primary gpt0);
          relocate = (grub_gpt_disk_size_valid disk \<and>
                      total_sectors disk - 1 > backup_header0);
          backup_header = (if relocate then total_sectors disk - 1 else backup_header0);
          gpt1 = (if relocate
                  then gpt0\<lparr>primary := (primary gpt0)\<lparr>alternate_lba := backup_header\<rparr>\<rparr>
                  else gpt0);
          gpt2 = gpt1\<lparr>backup := primary gpt1\<rparr>;
          gpt3 = gpt2\<lparr>backup := (backup gpt2)\<lparr>header_lba := alternate_lba (primary gpt2)\<rparr>\<rparr>;
          gpt4 = gpt3\<lparr>backup := (backup gpt3)\<lparr>alternate_lba := header_lba (primary gpt3)\<rparr>\<rparr>
      in gpt4\<lparr>backup := (backup gpt4)\<lparr>partitions :=
                 backup_header - grub_gpt_size_to_sectors gpt4 (entries_size gpt4)\<rparr>\<rparr>)"

definition repair_from_backup :: "grub_gpt \<Rightarrow> grub_gpt" where
  "repair_from_backup gpt0 =
     (let gpt1 = gpt0\<lparr>primary := backup gpt0\<rparr>;
          gpt2 = gpt1\<lparr>primary := (primary gpt1)\<lparr>header_lba := alternate_lba (backup gpt1)\<rparr>\<rparr>;
          gpt3 = gpt2\<lparr>primary := (primary gpt2)\<lparr>alternate_lba := header_lba (backup gpt2)\<rparr>\<rparr>
      in gpt3\<lparr>primary := (primary gpt3)\<lparr>partitions := 2\<rparr>\<rparr>)"

definition grub_gpt_repair ::
  "grub_env \<Rightarrow> grub_disk \<Rightarrow> grub_gpt \<Rightarrow> grub_err_state \<Rightarrow>
     grub_error option \<times> grub_gpt \<times> grub_err_state" where
  "grub_gpt_repair env disk gpt es =
     (if grub_gpt_both_valid gpt then (None, gpt, es)
      else if disk_log_sector_size disk \<noteq> log_sector_size gpt then
        (Some (GRUB_ERR_NOT_IMPLEMENTED_YET, ''GPT sector size must match disk sector size''),
         gpt,
         grub_error GRUB_ERR_NOT_IMPLEMENTED_YET
           ''GPT sector size must match disk sector size'' es)
      else if grub_gpt_primary_valid gpt then
        grub_gpt_update env (repair_from_primary disk gpt) es
      else if grub_gpt_backup_valid gpt then
        grub_gpt_update env (repair_from_backup gpt) es
      else
        (Some (GRUB_ERR_BUG, ''No valid GPT''), gpt,
         grub_error GRUB_ERR_BUG ''No valid GPT'' es))"

section \<open>Writer\<close>

text \<open>
  \<^verbatim>\<open>grub_gpt_write_table\<close>: the error returned and the writes handed to the device,
  in order (the last one is the refused one when the device fails it).
\<close>

definition grub_gpt_write_table ::
  "grub_disk \<Rightarrow> grub_gpt \<Rightarrow> grub_gpt_header \<Rightarrow> grub_error option \<times> disk_write list" where
  "grub_gpt_write_table disk gpt header =
     (if unat (headersize header) \<noteq> sizeof_header then
        (Some (GRUB_ERR_NOT_IMPLEMENTED_YET, ''Header size is %u, must be %u''), [])
      else
        (let addr = grub_gpt_sector_to_addr gpt (header_lba header);
             w1 = (addr, header_bytes header)
         in if addr = 0 then
              (Some (GRUB_ERR_BUG, ''Refusing to write GPT header to address 0x0''), [])
            else
              (case grub_disk_write disk addr sizeof_header of
                 Some e \<Rightarrow> (Some e, [w1])
               | None \<Rightarrow>
                   (let addr2 = grub_gpt_sector_to_addr gpt (partitions header);
                        w2 = (addr2, take (unat (entries_size gpt)) (entries gpt))
                    in if addr2 < 2 then
                         (Some (GRUB_ERR_BUG,
                                ''Refusing to write GPT entries to address 0x%llx''), [w1])
                       else
                         (case grub_disk_write disk addr2 (unat (entries_size gpt)) of
                            Some e \<Rightarrow> (Some e, [w1, w2])
                          | None \<Rightarrow> (None, [w1, w2]))))))"

text \<open>
  \<^verbatim>\<open>grub_gpt_write\<close>: the error returned, the writes handed to the device in order,
  and the lines printed with \<^verbatim>\<open>grub_printf\<close>.
\<close>

definition grub_gpt_write ::
  "grub_disk \<Rightarrow> grub_gpt \<Rightarrow> grub_error option \<times> disk_write list \<times> string list" where
  "grub_gpt_write disk gpt =
     (if \<not> grub_gpt_both_valid gpt then (Some (bad_part_table ''Invalid GPT data''), [], [])
      else
        (let backup_header = header_lba (backup gpt)
         in if grub_gpt_disk_size_valid disk \<and> backup_header \<ge> total_sectors disk then
              (case grub_gpt_write_table disk gpt (primary gpt) of
                 (r, ws) \<Rightarrow>
                   (r, ws,
                    [''warning: backup GPT located at 0x%llx, beyond last disk sector at 0x%llx'',
                     ''warning: only writing primary GPT, the backup GPT must be repaired from the OS'']))
            else
              (case grub_gpt_write_table disk gpt (backup gpt) of
                 (Some e, wb) \<Rightarrow> (Some e, wb, [])
               | (None, wb) \<Rightarrow>
                   (case grub_gpt_write_table disk gpt (primary gpt) of
                      (r, wp) \<Rightarrow> (r, wb @ wp, [])))))"

section \<open>Disk UUID\<close>

definition hex_digit :: "nat \<Rightarrow> char" where
  "hex_digit d = ''0123456789abcdef'' ! (d mod 16)"

definition hex_field :: "nat \<Rightarrow> nat \<Rightarrow> string" where
  "hex_field width v = map (\<lambda>i. hex_digit (v div 16 ^ i)) (rev [0..<width])"

definition data4_at :: "grub_gpt_guid \<Rightarrow> nat \<Rightarrow> nat" where
  "data4_at g i = unat (ucast (drop_bit (8 * i) (data4 g)) :: byte)"

text \<open>
  \<^verbatim>\<open>grub_gpt_guid_to_str\<close>: the string of \<^verbatim>\<open>grub_xasprintf\<close> with the format
  \<^verbatim>\<open>%08x-%04x-%04x-%02x%02x-%02x%02x%02x%02x%02x%02x\<close>, or \<open>None\<close> for NULL when
  its 37 bytes cannot be allocated.
\<close>

definition grub_gpt_guid_to_str :: "grub_env \<Rightarrow> grub_gpt_guid \<Rightarrow> string option" where
  "grub_gpt_guid_to_str env g =
     (if \<not> malloc_ok env 37 then None
      else Some (hex_field 8 (unat (data1 g)) @ ''-'' @ hex_field 4 (unat (data2 g)) @ ''-'' @
                 hex_field 4 (unat (data3 g)) @ ''-'' @
                 hex_field 2 (data4_at g 0) @ hex_field 2 (data4_at g 1) @ ''-'' @
                 concat (map (\<lambda>i. hex_field 2 (data4_at g i)) [2..<8])))"

text \<open>
  \<^verbatim>\<open>grub_gpt_disk_uuid\<close> from its call of \<^verbatim>\<open>grub_gpt_get_header\<close> to its
  return, on the handle \<^verbatim>\<open>gpt\<close> that the reader returned: the value returned (the
  \<^verbatim>\<open>grub_errno\<close> it ends with), the string pointer in \<^verbatim>\<open>*uuid\<close> (the caller's
  when it is not assigned), and the error state.
\<close>

definition disk_uuid_of_handle ::
  "grub_env \<Rightarrow> grub_gpt \<Rightarrow> string option \<Rightarrow> grub_err_state \<Rightarrow>
     grub_error option \<times> string option \<times> grub_err_state" where
  "disk_uuid_of_handle env gpt uuid es1 =
     (case grub_gpt_get_header gpt es1 of
        (None, es2) \<Rightarrow> (grub_errno es2, uuid, es2)
      | (Some r, es2) \<Rightarrow>
          (case grub_gpt_guid_to_str env (guid (deref gpt r)) of
             None \<Rightarrow>
               (Some out_of_memory, None, es2\<lparr>grub_errno := Some out_of_memory\<rparr>)
           | Some str \<Rightarrow> (grub_errno es2, Some str, es2)))"

text \<open>
  \<^verbatim>\<open>grub_gpt_disk_uuid\<close> on the disk of the device: it reads a handle of its own, and
  returns the reader's error when there is none.
\<close>

definition grub_gpt_disk_uuid ::
  "grub_env \<Rightarrow> grub_disk \<Rightarrow> string option \<Rightarrow> grub_err_state \<Rightarrow>
     grub_error option \<times> string option \<times> grub_err_state" where
  "grub_gpt_disk_uuid env disk uuid es0 =
     (case grub_gpt_read env disk es0 of
        (None, es1) \<Rightarrow> (grub_errno es1, uuid, es1)
      | (Some gpt, es1) \<Rightarrow> disk_uuid_of_handle env gpt uuid es1)"

section \<open>A sample medium\<close>

text \<open>
  A 2048-sector medium of 512-byte sectors laid out as GPT: protective MBR in sector 0,
  primary header in sector 1 and its 128 entries of 128 bytes from sector 2, usable sectors
  34 to 2014, backup entries from sector 2015 and backup header in sector 2047. All
  entries are unused (zero). The stand-in for the CRC primitive adds up the length and the
  bytes of the range.
\<close>

definition example_crc :: "byte list \<Rightarrow> 32 word" where
  "example_crc bs = of_nat (length bs + sum_list (map unat bs))"

definition example_env :: grub_env where
  "example_env = \<lparr>md_crc32 = example_crc, malloc_ok = (\<lambda>n. True), stray_byte = (\<lambda>i. 0)\<rparr>"

definition example_entries :: "byte list" where
  "example_entries = replicate 16384 0"

definition with_crc :: "grub_env \<Rightarrow> grub_gpt_header \<Rightarrow> grub_gpt_header" where
  "with_crc env h = h\<lparr>crc32 := grub_gpt_header_lecrc32 env h\<rparr>"

definition example_guid :: grub_gpt_guid where
  "example_guid = \<lparr>data1 = 0x01234567, data2 = 0x89AB, data3 = 0xCDEF, data4 = 0x0807060504030201\<rparr>"

definition example_primary :: grub_gpt_header where
  "example_primary = with_crc example_env
     \<lparr>magic = grub_gpt_magic, version = 0x00010000, headersize = 92, crc32 = 0, unused1 = 0,
      header_lba = 1, alternate_lba = 2047, start = 34, end_lba = 2014, guid = example_guid,
      partitions = 2, maxpart = 128, partentry_size = 128,
      partentry_crc32 = grub_gpt_lecrc32 example_env example_entries 16384\<rparr>"

definition example_backup :: grub_gpt_header where
  "example_backup = with_crc example_env
     \<lparr>magic = grub_gpt_magic, version = 0x00010000, headersize = 92, crc32 = 0, unused1 = 0,
      header_lba = 2047, alternate_lba = 1, start = 34, end_lba = 2014, guid = example_guid,
      partitions = 2015, maxpart = 128, partentry_size = 128,
      partentry_crc32 = grub_gpt_lecrc32 example_env example_entries 16384\<rparr>"

definition example_mbr :: "byte list" where
  "example_mbr = (replicate 512 0)[450 := 0xEE, 510 := 0x55, 511 := 0xAA]"

definition example_media :: "nat \<Rightarrow> byte" where
  "example_media a =
     (if a < 512 then example_mbr ! a
      else if a < 512 + 92 then header_bytes example_primary ! (a - 512)
      else if 2047 * 512 \<le> a \<and> a < 2047 * 512 + 92
        then header_bytes example_backup ! (a - 2047 * 512)
      else 0)"

definition example_disk :: grub_disk where
  "example_disk =
     \<lparr>disk_log_sector_size = 9, total_sectors = 2048, media = example_media,
      read_fault = (\<lambda>addr len. None), write_fault = (\<lambda>addr len. None)\<rparr>"

text \<open>The handle of that medium with every bit of the status set.\<close>

definition example_gpt :: grub_gpt where
  "example_gpt =
     \<lparr>status = GRUB_GPT_PROTECTIVE_MBR OR GRUB_GPT_BOTH_VALID, mbr = example_mbr,
      primary = example_primary, backup = example_backup, entries = example_entries,
      entries_size = 16384, log_sector_size = 9\<rparr>"

text \<open>A blank medium of the same size, and the error state with nothing pending.\<close>

definition blank_disk :: grub_disk where
  "blank_disk =
     \<lparr>disk_log_sector_size = 9, total_sectors = 2048, media = (\<lambda>a. 0),
      read_fault = (\<lambda>addr len. None), write_fault = (\<lambda>addr len. None)\<rparr>"

definition no_error :: grub_err_state where
  "no_error = \<lparr>grub_errno = None, grub_error_stack = []\<rparr>"

text \<open>
  The same handle as the reader leaves it when only one copy has validated: the primary
  alone, and the backup alone.
\<close>

definition example_primary_only :: grub_gpt where
  "example_primary_only =
     example_gpt\<lparr>status := GRUB_GPT_PROTECTIVE_MBR OR GRUB_GPT_PRIMARY_VALID,
       backup := zero_header\<rparr>"

definition example_backup_only :: grub_gpt where
  "example_backup_only =
     example_gpt\<lparr>status := GRUB_GPT_PROTECTIVE_MBR OR GRUB_GPT_BACKUP_VALID,
       primary := zero_header\<rparr>"

text \<open>The sample medium after it has grown to 4096 sectors.\<close>

definition grown_disk :: grub_disk where
  "grown_disk = example_disk\<lparr>total_sectors := 4096\<rparr>"

text \<open>
  The sample medium with a backup header that passes its own checks but gives another
  first usable sector than the primary.
\<close>

definition drifted_backup :: grub_gpt_header where
  "drifted_backup = with_crc example_env (example_backup\<lparr>start := 35\<rparr>)"

definition drifted_disk :: grub_disk where
  "drifted_disk =
     example_disk\<lparr>media :=
       (\<lambda>a. if 2047 * 512 \<le> a \<and> a < 2047 * 512 + 92
            then header_bytes drifted_backup ! (a - 2047 * 512)
            else example_media a)\<rparr>"

text \<open>The sample medium with the first byte of the backup entry array changed.\<close>

definition tampered_disk :: grub_disk where
  "tampered_disk =
     example_disk\<lparr>media := (\<lambda>a. if a = 2015 * 512 then 1 else example_media a)\<rparr>"

text \<open>The sample medium with sector 1 wiped.\<close>

definition primary_lost_disk :: grub_disk where
  "primary_lost_disk =
     example_disk\<lparr>media := (\<lambda>a. if 512 \<le> a \<and> a < 1024 then 0 else example_media a)\<rparr>"

text \<open>
  A blank medium whose driver reports no size (the sentinel, all bits set), and a medium
  of 4096-byte sectors whose driver reports \<open>2 ^ 61\<close> of them.
\<close>

definition unsized_blank_disk :: grub_disk where
  "unsized_blank_disk = blank_disk\<lparr>total_sectors := 0xFFFFFFFFFFFFFFFF\<rparr>"

definition huge_disk :: grub_disk where
  "huge_disk = blank_disk\<lparr>disk_log_sector_size := 12, total_sectors := 2 ^ 61\<rparr>"

text \<open>
  The sample medium behind a device that fails every read of sector 0, and an allocator
  that has nothing left.
\<close>

definition unreadable_disk :: grub_disk where
  "unreadable_disk =
     example_disk\<lparr>read_fault :=
       (\<lambda>addr len. if addr = 0 then Some (GRUB_ERR_IO, ''read error'') else None)\<rparr>"

definition exhausted_env :: grub_env where
  "exhausted_env = example_env\<lparr>malloc_ok := (\<lambda>n. False)\<rparr>"

section \<open>Facts about words, bits and the status mask\<close>

lemma nat_and_pred_zero_iff:
  "(n::nat) AND (n - 1) = 0 \<longleftrightarrow> n = 0 \<or> (\<exists>k. n = 2 ^ k)"
proof (induction n rule: less_induct)
  case (less n)
  show ?case
  proof (cases "n = 0")
    case True then show ?thesis by simp
  next
    case n0: False
    show ?thesis
    proof (cases "even n")
      case True
      then obtain m where m: "n = 2 * m" by (auto elim: evenE)
      with n0 have m0: "m \<noteq> 0" by simp
      have pred: "n - 1 = 2 * (m - 1) + 1" using m m0 by simp
      have "n AND (n - 1) = 2 * (m AND (m - 1))"
        unfolding pred unfolding m
        by (subst and_nat_rec) (simp)
      hence "n AND (n - 1) = 0 \<longleftrightarrow> m AND (m - 1) = 0" by simp
      also have "\<dots> \<longleftrightarrow> m = 0 \<or> (\<exists>k. m = 2 ^ k)"
        using less.IH[of m] m m0 by simp
      also have "\<dots> \<longleftrightarrow> (\<exists>k. n = 2 ^ k)"
      proof
        assume "m = 0 \<or> (\<exists>k. m = 2 ^ k)"
        with m0 obtain k where "m = 2 ^ k" by auto
        hence "n = 2 ^ Suc k" using m by simp
        thus "\<exists>k. n = 2 ^ k" by blast
      next
        assume "\<exists>k. n = 2 ^ k"
        then obtain k where k: "n = 2 ^ k" by blast
        with True have "k \<noteq> 0" by (cases k) auto
        then obtain j where "k = Suc j" by (cases k) auto
        with k m have "m = 2 ^ j" by simp
        thus "m = 0 \<or> (\<exists>k. m = 2 ^ k)" by blast
      qed
      finally show ?thesis using n0 by simp
    next
      case False
      then obtain m where m: "n = 2 * m + 1" by (auto elim: oddE)
      have "n AND (n - 1) = 2 * m"
        unfolding m by (subst and_nat_rec) simp
      hence "n AND (n - 1) = 0 \<longleftrightarrow> m = 0" by simp
      also have "\<dots> \<longleftrightarrow> (\<exists>k. n = 2 ^ k)"
      proof
        assume "m = 0" hence "n = 2 ^ 0" using m by simp
        thus "\<exists>k. n = 2 ^ k" by blast
      next
        assume "\<exists>k. n = 2 ^ k"
        then obtain k where k: "n = 2 ^ k" by blast
        with False have "k = 0" by (cases k) auto
        with k m show "m = 0" by simp
      qed
      finally show ?thesis using n0 by simp
    qed
  qed
qed

lemma is_pow2_iff:
  "is_pow2 n \<longleftrightarrow> n = 0 \<or> (\<exists>k. unat n = 2 ^ k)"
proof (cases "n = 0")
  case True then show ?thesis by (simp add: is_pow2_def)
next
  case False
  hence pos: "1 \<le> unat n" by (simp add: unat_gt_0 Suc_leI)
  have "unat (n - 1) = unat n - 1"
    using False by (simp add: unat_minus_one)
  hence "unat (n AND (n - 1)) = unat n AND (unat n - 1)"
    by (simp add: unsigned_and_eq)
  moreover have "(n AND (n - 1) = 0) \<longleftrightarrow> unat (n AND (n - 1)) = 0"
    by (simp add: unat_eq_0)
  ultimately show ?thesis
    using False nat_and_pred_zero_iff[of "unat n"] by (simp add: is_pow2_def unat_eq_0)
qed

lemma magic_bytes: "le_bytes 8 grub_gpt_magic = map (\<lambda>c. of_nat (of_char c)) ''EFI PART''"
  by (simp add: le_bytes_def grub_gpt_magic_def upt_rec drop_bit_eq_div)

lemma le_bytes8_inj: "le_bytes 8 (a::64 word) = le_bytes 8 b \<Longrightarrow> a = b"
proof (rule bit_word_eqI)
  fix n assume eq: "le_bytes 8 a = le_bytes 8 b" and n: "n < LENGTH(64)"
  define i where "i = n div 8"
  define j where "j = n mod 8"
  have i8: "i < 8" using n by (simp add: i_def)
  have j8: "j < 8" by (simp add: j_def)
  have nij: "n = 8 * i + j" by (simp add: i_def j_def)
  have "le_bytes 8 a ! i = le_bytes 8 b ! i" using eq by simp
  hence "(ucast (drop_bit (8 * i) a) :: byte) = ucast (drop_bit (8 * i) b)"
    using i8 by (simp add: le_bytes_def)
  hence "bit (ucast (drop_bit (8 * i) a) :: byte) j = bit (ucast (drop_bit (8 * i) b) :: byte) j"
    by simp
  thus "bit a n = bit b n"
    using j8 by (simp add: bit_ucast_iff bit_drop_bit_eq nij)
qed

lemma magic_iff:
  "(m \<noteq> grub_gpt_magic) \<longleftrightarrow> le_bytes 8 m \<noteq> map (\<lambda>c. of_nat (of_char c)) ''EFI PART''"
  using le_bytes8_inj[of m grub_gpt_magic] magic_bytes by auto

lemma unat_2p: "k < LENGTH('a) \<Longrightarrow> unat ((2::'a::len word) ^ k) = 2 ^ k"
proof -
  assume k: "k < LENGTH('a)"
  have lt: "(2::nat) ^ k < 2 ^ LENGTH('a)" using k by (rule power_strict_increasing) simp
  have "word_of_nat (2 ^ k) = (2::'a word) ^ k" by simp
  from of_nat_inverse[OF this lt] show ?thesis .
qed

lemma shift1_32: "n < 32 \<Longrightarrow> unat (push_bit (unat (n::32 word)) (1 :: 32 word)) = 2 ^ unat n"
  by (simp add: word_less_nat_alt unat_2p)

lemma unat_ucast_32_64: "unat (ucast (w::32 word) :: 64 word) = unat w"
proof -
  have "unat w < 2 ^ 32" using unsigned_less[of w] by simp
  hence "unat w < 2 ^ 64" by simp
  thus ?thesis by (simp add: unsigned_ucast_eq take_bit_nat_eq_self)
qed

lemma entries_size_unat:
  "unat (grub_gpt_entries_size h) = unat (maxpart h) * unat (partentry_size h)"
proof -
  have a: "unat (maxpart h) < 2 ^ 32" using unsigned_less[of "maxpart h"] by simp
  have b: "unat (partentry_size h) < 2 ^ 32" using unsigned_less[of "partentry_size h"] by simp
  have "unat (maxpart h) * unat (partentry_size h) < 2 ^ 32 * 2 ^ 32"
    using a b by (rule mult_strict_mono') simp_all
  hence "unat (maxpart h) * unat (partentry_size h) < 2 ^ 64" by simp
  thus ?thesis
    by (simp add: grub_gpt_entries_size_def unat_word_ariths unat_ucast_32_64)
qed

lemma entry_size_ok_iff:
  "(s < 128 \<or> s mod 128 \<noteq> 0 \<or> \<not> is_pow2 (s div 128)) \<longleftrightarrow>
   (unat (s::32 word) < 128 \<or> \<not> 128 dvd unat s \<or> \<not> (\<exists>k. unat s div 128 = 2 ^ k))"
proof -
  have d: "unat (s div 128) = unat s div 128" by (simp add: unat_div)
  have "(s mod 128 = 0) \<longleftrightarrow> unat (s mod 128) = 0" by (simp add: unat_eq_0)
  hence m: "(s mod 128 \<noteq> 0) \<longleftrightarrow> \<not> 128 dvd unat s"
    by (simp add: unat_mod dvd_eq_mod_eq_0)
  have l: "(s < 128) \<longleftrightarrow> unat s < 128" by (simp add: word_less_nat_alt)
  have z: "\<not> unat s < 128 \<Longrightarrow> s div 128 \<noteq> 0"
  proof
    assume a: "\<not> unat s < 128" and "s div 128 = 0"
    hence "unat (s div 128) = 0" by simp
    hence "unat s div 128 = 0" using d by simp
    with a show False by (simp add: div_eq_0_iff)
  qed
  show ?thesis using z by (auto simp: is_pow2_iff d m l)
qed

lemma bit_pow32: "k < 32 \<Longrightarrow> bit ((2::32 word) ^ k) n \<longleftrightarrow> n = k"
  by (auto simp: bit_exp_iff)

lemma bit_flags [simp]:
  "bit GRUB_GPT_PROTECTIVE_MBR n \<longleftrightarrow> n = 0"
  "bit GRUB_GPT_PRIMARY_HEADER_VALID n \<longleftrightarrow> n = 2"
  "bit GRUB_GPT_PRIMARY_ENTRIES_VALID n \<longleftrightarrow> n = 3"
  "bit GRUB_GPT_BACKUP_HEADER_VALID n \<longleftrightarrow> n = 4"
  "bit GRUB_GPT_BACKUP_ENTRIES_VALID n \<longleftrightarrow> n = 5"
  using bit_pow32[of 0 n] bit_pow32[of 2 n] bit_pow32[of 3 n] bit_pow32[of 4 n] bit_pow32[of 5 n]
  by (simp_all add: GRUB_GPT_PROTECTIVE_MBR_def GRUB_GPT_PRIMARY_HEADER_VALID_def
      GRUB_GPT_PRIMARY_ENTRIES_VALID_def GRUB_GPT_BACKUP_HEADER_VALID_def
      GRUB_GPT_BACKUP_ENTRIES_VALID_def)

lemma and_eq_zero_iff: "(s AND m = 0) \<longleftrightarrow> (\<forall>n. bit m n \<longrightarrow> \<not> bit s n)"
  for s m :: "32 word"
proof
  assume a: "s AND m = 0"
  show "\<forall>n. bit m n \<longrightarrow> \<not> bit s n"
  proof (intro allI impI notI)
    fix n assume "bit m n" "bit s n"
    hence "bit (s AND m) n" by (simp add: bit_and_iff)
    with a show False by simp
  qed
next
  assume "\<forall>n. bit m n \<longrightarrow> \<not> bit s n"
  thus "s AND m = 0" by (intro bit_word_eqI) (auto simp: bit_and_iff)
qed

lemma and_eq_mask_iff: "(s AND m = m) \<longleftrightarrow> (\<forall>n. bit m n \<longrightarrow> bit s n)"
  for s m :: "32 word"
proof
  assume a: "s AND m = m"
  show "\<forall>n. bit m n \<longrightarrow> bit s n"
  proof (intro allI impI)
    fix n assume "bit m n"
    hence "bit (s AND m) n" using a by simp
    thus "bit s n" by (simp add: bit_and_iff)
  qed
next
  assume "\<forall>n. bit m n \<longrightarrow> bit s n"
  thus "s AND m = m" by (intro bit_word_eqI) (auto simp: bit_and_iff)
qed

lemma test_flag [simp]:
  "(s AND GRUB_GPT_PRIMARY_HEADER_VALID = 0) \<longleftrightarrow> \<not> bit s 2"
  "(s AND GRUB_GPT_PRIMARY_ENTRIES_VALID = 0) \<longleftrightarrow> \<not> bit s 3"
  "(s AND GRUB_GPT_BACKUP_HEADER_VALID = 0) \<longleftrightarrow> \<not> bit s 4"
  "(s AND GRUB_GPT_BACKUP_ENTRIES_VALID = 0) \<longleftrightarrow> \<not> bit s 5"
  for s :: "32 word"
  by (simp_all add: and_eq_zero_iff)

lemma primary_valid_iff: "grub_gpt_primary_valid gpt \<longleftrightarrow> bit (status gpt) 2 \<and> bit (status gpt) 3"
  unfolding grub_gpt_primary_valid_def GRUB_GPT_PRIMARY_VALID_def and_eq_mask_iff
  by (auto simp: bit_or_iff)

lemma backup_valid_iff: "grub_gpt_backup_valid gpt \<longleftrightarrow> bit (status gpt) 4 \<and> bit (status gpt) 5"
  unfolding grub_gpt_backup_valid_def GRUB_GPT_BACKUP_VALID_def and_eq_mask_iff
  by (auto simp: bit_or_iff)

lemma both_valid_iff:
  "grub_gpt_both_valid gpt \<longleftrightarrow>
     bit (status gpt) 2 \<and> bit (status gpt) 3 \<and> bit (status gpt) 4 \<and> bit (status gpt) 5"
  unfolding grub_gpt_both_valid_def GRUB_GPT_BOTH_VALID_def GRUB_GPT_PRIMARY_VALID_def
    GRUB_GPT_BACKUP_VALID_def and_eq_mask_iff
  by (auto simp: bit_or_iff)

lemma bit_clear_valid:
  "bit (s AND NOT all_valid_bits) n \<longleftrightarrow> bit s n \<and> n \<noteq> 2 \<and> n \<noteq> 3 \<and> n \<noteq> 4 \<and> n \<noteq> 5"
  for s :: "32 word"
  unfolding all_valid_bits_def
  by (auto simp: bit_and_iff bit_or_iff bit_not_iff dest: bit_imp_possible_bit)

lemma bit_set_flag:
  "bit (s OR GRUB_GPT_PROTECTIVE_MBR) n \<longleftrightarrow> bit s n \<or> n = 0"
  "bit (s OR GRUB_GPT_PRIMARY_HEADER_VALID) n \<longleftrightarrow> bit s n \<or> n = 2"
  "bit (s OR GRUB_GPT_PRIMARY_ENTRIES_VALID) n \<longleftrightarrow> bit s n \<or> n = 3"
  "bit (s OR GRUB_GPT_BACKUP_HEADER_VALID) n \<longleftrightarrow> bit s n \<or> n = 4"
  "bit (s OR GRUB_GPT_BACKUP_ENTRIES_VALID) n \<longleftrightarrow> bit s n \<or> n = 5"
  for s :: "32 word"
  by (simp_all add: bit_or_iff)

lemma with_crc_check [simp]:
  "grub_gpt_header_lecrc32 env (with_crc env h) = crc32 (with_crc env h)"
  by (simp add: with_crc_def grub_gpt_header_lecrc32_def)

section \<open>Facts about the updater, the writer and the sample medium\<close>

lemma update_prepare_simps:
  "primary (update_prepare env g) =
     with_crc env ((primary g)\<lparr>headersize := 92,
        partentry_crc32 := grub_gpt_lecrc32 env (entries g) (unat (entries_size g))\<rparr>)"
  "backup (update_prepare env g) =
     with_crc env ((backup g)\<lparr>headersize := 92,
        partentry_crc32 := grub_gpt_lecrc32 env (entries g) (unat (entries_size g))\<rparr>)"
  "status (update_prepare env g) = status g AND NOT all_valid_bits"
  "entries (update_prepare env g) = entries g"
  "entries_size (update_prepare env g) = entries_size g"
  "log_sector_size (update_prepare env g) = log_sector_size g"
  "mbr (update_prepare env g) = mbr g"
  by (simp_all add: update_prepare_def with_crc_def Let_def sizeof_header_def)

lemma status_after_primary:
  fixes s :: "32 word"
  shows "bit ((s AND NOT all_valid_bits) OR
            (GRUB_GPT_PRIMARY_HEADER_VALID OR GRUB_GPT_PRIMARY_ENTRIES_VALID)) n \<longleftrightarrow>
         (bit s n \<and> n \<noteq> 4 \<and> n \<noteq> 5) \<or> n = 2 \<or> n = 3"
  by (auto simp: bit_or_iff bit_clear_valid)

lemma with_crc_fields [simp]:
  "magic (with_crc env h) = magic h" "version (with_crc env h) = version h"
  "headersize (with_crc env h) = headersize h" "unused1 (with_crc env h) = unused1 h"
  "header_lba (with_crc env h) = header_lba h" "alternate_lba (with_crc env h) = alternate_lba h"
  "start (with_crc env h) = start h" "end_lba (with_crc env h) = end_lba h"
  "guid (with_crc env h) = guid h" "partitions (with_crc env h) = partitions h"
  "maxpart (with_crc env h) = maxpart h" "partentry_size (with_crc env h) = partentry_size h"
  "partentry_crc32 (with_crc env h) = partentry_crc32 h"
  by (simp_all add: with_crc_def)

lemma with_crc_idem [simp]: "with_crc env (with_crc env h) = with_crc env h"
  by (simp add: with_crc_def grub_gpt_header_lecrc32_def)

lemma with_crc_entries_size [simp]:
  "grub_gpt_entries_size (with_crc env h) = grub_gpt_entries_size h"
  by (simp add: grub_gpt_entries_size_def)

lemma with_crc_entries_sectors [simp]:
  "grub_gpt_entries_sectors (with_crc env h) l = grub_gpt_entries_sectors h l"
  by (simp add: grub_gpt_entries_sectors_def)

lemma le_word_zeros: "le_word (replicate n 0) = 0"
  by (induction n) (simp_all add: le_word_def)

lemma zero_header_fields [simp]:
  "magic zero_header = 0" "version zero_header = 0" "headersize zero_header = 0"
  "crc32 zero_header = 0" "header_lba zero_header = 0" "alternate_lba zero_header = 0"
  "partitions zero_header = 0" "maxpart zero_header = 0" "partentry_size zero_header = 0"
  "start zero_header = 0" "end_lba zero_header = 0" "partentry_crc32 zero_header = 0"
  by (simp_all add: zero_header_def header_of_bytes_def sizeof_header_def le_word_zeros)

lemma zero_header_check:
  "grub_gpt_header_check env (with_crc env' (zero_header\<lparr>headersize := a, partentry_crc32 := b\<rparr>)) l
    = Some (bad_part_table ''invalid GPT signature'')"
  by (simp add: grub_gpt_header_check_def grub_gpt_magic_def)

lemma example_status_bits [simp]:
  "bit (status example_gpt) n \<longleftrightarrow> n = 0 \<or> n = 2 \<or> n = 3 \<or> n = 4 \<or> n = 5"
  by (auto simp: example_gpt_def GRUB_GPT_BOTH_VALID_def GRUB_GPT_PRIMARY_VALID_def
      GRUB_GPT_BACKUP_VALID_def bit_or_iff)

lemma example_gpt_fields [simp]:
  "primary example_gpt = example_primary" "backup example_gpt = example_backup"
  "entries example_gpt = example_entries" "entries_size example_gpt = 16384"
  "log_sector_size example_gpt = 9" "mbr example_gpt = example_mbr"
  by (simp_all add: example_gpt_def)

lemma example_pcrc:
  "grub_gpt_lecrc32 example_env (entries example_gpt) (unat (entries_size example_gpt))
   = grub_gpt_lecrc32 example_env example_entries 16384"
  by simp

lemma example_primary_refresh:
  "with_crc example_env (example_primary\<lparr>headersize := 92,
      partentry_crc32 := grub_gpt_lecrc32 example_env example_entries 16384\<rparr>) = example_primary"
  by (simp add: example_primary_def with_crc_def grub_gpt_header_lecrc32_def)

lemma example_backup_refresh:
  "with_crc example_env (example_backup\<lparr>headersize := 92,
      partentry_crc32 := grub_gpt_lecrc32 example_env example_entries 16384\<rparr>) = example_backup"
  by (simp add: example_backup_def with_crc_def grub_gpt_header_lecrc32_def)

lemma example_header_check:
  "grub_gpt_header_check example_env example_primary 9 = None"
  "grub_gpt_header_check example_env example_backup 9 = None"
  by (simp_all add: grub_gpt_header_check_def example_primary_def example_backup_def
      GRUB_GPT_HEADER_VERSION_def is_pow2_def grub_gpt_entries_size_def
      GRUB_GPT_DEFAULT_ENTRIES_SIZE_def)

lemma example_sectors:
  "grub_gpt_entries_sectors example_primary 9 = 32"
  "grub_gpt_entries_sectors example_backup 9 = 32"
  by (simp_all add: grub_gpt_entries_sectors_def example_primary_def example_backup_def
      grub_gpt_entries_size_def)

lemma example_primary_fields [simp]:
  "header_lba example_primary = 1" "alternate_lba example_primary = 2047"
  "partitions example_primary = 2" "start example_primary = 34" "end_lba example_primary = 2014"
  "headersize example_primary = 92" "maxpart example_primary = 128"
  "partentry_size example_primary = 128" "guid example_primary = example_guid"
  "partentry_crc32 example_primary = grub_gpt_lecrc32 example_env example_entries 16384"
  by (simp_all add: example_primary_def)

lemma example_backup_fields [simp]:
  "header_lba example_backup = 2047" "alternate_lba example_backup = 1"
  "partitions example_backup = 2015" "start example_backup = 34" "end_lba example_backup = 2014"
  "headersize example_backup = 92" "maxpart example_backup = 128"
  "partentry_size example_backup = 128" "guid example_backup = example_guid"
  "partentry_crc32 example_backup = grub_gpt_lecrc32 example_env example_entries 16384"
  by (simp_all add: example_backup_def)

lemma check_primary_example:
  "primary g = example_primary \<Longrightarrow> log_sector_size g = 9 \<Longrightarrow>
   grub_gpt_check_primary example_env g = None"
  by (simp add: grub_gpt_check_primary_def example_header_check example_sectors
      word_le_nat_alt word_less_nat_alt)

lemma check_backup_example:
  "primary g = example_primary \<Longrightarrow> backup g = example_backup \<Longrightarrow> log_sector_size g = 9 \<Longrightarrow>
   grub_gpt_check_backup example_env g = None"
  by (simp add: grub_gpt_check_backup_def example_header_check example_sectors
      grub_gpt_headers_equal_def word_le_nat_alt word_less_nat_alt)

lemma sector_to_addr_512 [simp]:
  "log_sector_size gpt = 9 \<Longrightarrow> grub_gpt_sector_to_addr gpt s = s"
  by (simp add: grub_gpt_sector_to_addr_def GRUB_DISK_SECTOR_BITS_def)

lemma sector_to_addr_0 [simp]: "grub_gpt_sector_to_addr gpt 0 = 0"
  by (simp add: grub_gpt_sector_to_addr_def)

lemma write_table_addrs:
  "w \<in> set (snd (grub_gpt_write_table disk gpt h)) \<Longrightarrow>
   fst w = grub_gpt_sector_to_addr gpt (header_lba h) \<or>
   fst w = grub_gpt_sector_to_addr gpt (partitions h)"
  by (auto simp: grub_gpt_write_table_def Let_def split: if_splits option.splits)

lemma example_write_table:
  "grub_gpt_write_table example_disk example_gpt example_backup =
     (None, [(2047, header_bytes example_backup), (2015, example_entries)])"
  "grub_gpt_write_table example_disk example_gpt example_primary =
     (None, [(1, header_bytes example_primary), (2, example_entries)])"
  by (simp_all add: grub_gpt_write_table_def sizeof_header_def Let_def grub_disk_write_def
      example_disk_def example_entries_def word_less_nat_alt)

lemma example_size_valid: "grub_gpt_disk_size_valid example_disk"
  by (simp add: grub_gpt_disk_size_valid_def example_disk_def GRUB_DISK_SECTOR_BITS_def
      word_less_nat_alt)

section \<open>Facts about the reader, and the reader on the sample medium\<close>

lemma read_some_valid:
  assumes "grub_gpt_read env disk es = (Some g, es1)"
  shows "(grub_gpt_primary_valid g \<or> grub_gpt_backup_valid g) \<and> grub_errno es1 = None"
  using assms
  by (auto simp: grub_gpt_read_def Let_def split: if_splits sum.splits prod.splits option.splits)

lemma get_header_cases:
  "grub_gpt_get_header g es =
     (if bit (status g) 2 then (Some PRIMARY, es)
      else if bit (status g) 4 then (Some BACKUP, es)
      else (None, es\<lparr>grub_errno := Some (GRUB_ERR_BUG, ''No valid GPT header'')\<rparr>))"
  by (simp add: grub_gpt_get_header_def grub_error_def)

lemma blank_read [simp]: "grub_disk_read blank_disk a n = Inr (replicate n 0)"
  by (simp add: grub_disk_read_def blank_disk_def map_replicate_const)

lemma blank_size_valid [simp]: "grub_gpt_disk_size_valid blank_disk"
  by (simp add: grub_gpt_disk_size_valid_def blank_disk_def GRUB_DISK_SECTOR_BITS_def
      word_less_nat_alt)

lemma blank_geometry [simp]:
  "disk_log_sector_size blank_disk = 9" "total_sectors blank_disk = 2048"
  by (simp_all add: blank_disk_def)

lemma header_of_zeros [simp]: "header_of_bytes (replicate 92 0) = zero_header"
  by (simp add: zero_header_def sizeof_header_def)

lemma pmbr_zeros [simp]:
  "grub_gpt_pmbr_check env (replicate 512 0) = Some (bad_part_table ''invalid MBR signature'')"
  by (simp add: grub_gpt_pmbr_check_def mbr_signature_def le_word_zeros)

lemma zero_header_check_plain [simp]:
  "grub_gpt_header_check env zero_header l = Some (bad_part_table ''invalid GPT signature'')"
  by (simp add: grub_gpt_header_check_def grub_gpt_magic_def)

lemma blank_read_primary:
  "grub_gpt_read_primary env blank_disk (gpt_with_mbr env (replicate 512 0)) =
     (Some (bad_part_table ''invalid GPT signature''), zero_gpt\<lparr>log_sector_size := 9\<rparr>)"
  by (simp add: grub_gpt_read_primary_def gpt_with_mbr_def sizeof_header_def Let_def
      grub_gpt_check_primary_def zero_gpt_def)

lemma blank_read_backup:
  "grub_gpt_read_backup env blank_disk (zero_gpt\<lparr>log_sector_size := 9\<rparr>) =
     (Some (bad_part_table ''invalid GPT signature''), zero_gpt\<lparr>log_sector_size := 9\<rparr>)"
  by (simp add: grub_gpt_read_backup_def backup_sector_def sizeof_header_def Let_def
      grub_gpt_check_backup_def zero_gpt_def word_le_nat_alt)

lemma zero_gpt_status [simp]: "status zero_gpt = 0"
  by (simp add: zero_gpt_def)

lemma blank_read_gpt:
  "malloc_ok env sizeof_gpt \<Longrightarrow>
   grub_gpt_read env blank_disk es =
     (None, es\<lparr>grub_errno := Some (GRUB_ERR_BAD_PART_TABLE, ''invalid GPT signature'')\<rparr>)"
  by (simp add: grub_gpt_read_def blank_read_primary blank_read_backup Let_def
      grub_error_push_def grub_error_pop_def set_errno_def primary_valid_iff backup_valid_iff
      bad_part_table_def)

lemma length_le_bytes [simp]: "length (le_bytes n w) = n"
  by (simp add: le_bytes_def)

lemma le_word_Cons: "le_word (b # bs) = (ucast b OR push_bit 8 (le_word bs) :: 'a::len word)"
  by (simp add: le_word_def)

lemma le_word_slices:
  "(le_word (map (\<lambda>i. ucast (drop_bit (8 * i) w) :: byte) [k..<k + n]) :: 'a::len word)
   = take_bit (8 * n) (drop_bit (8 * k) (w :: 'a word))"
proof (induction n arbitrary: k)
  case 0
  show ?case by (simp add: le_word_def)
next
  case (Suc n)
  have upt: "[k..<k + Suc n] = k # [Suc k..<Suc k + n]"
    by (simp add: upt_rec)
  show ?case
    unfolding upt list.map le_word_Cons Suc.IH
    by (rule bit_word_eqI)
      (auto simp: bit_or_iff bit_push_bit_iff bit_take_bit_iff bit_drop_bit_eq bit_ucast_iff
        algebra_simps)
qed

lemma le_word_le_bytes:
  "LENGTH('a) \<le> 8 * n \<Longrightarrow> le_word (le_bytes n w) = (w :: 'a::len word)"
  unfolding le_bytes_def using le_word_slices[of w 0 n]
  by (simp add: take_bit_word_eq_self)

lemma length_guid_bytes [simp]: "length (guid_bytes g) = 16"
  by (simp add: guid_bytes_def)

lemma length_header_bytes [simp]: "length (header_bytes h) = 92"
  by (simp add: header_bytes_def)

lemma guid_roundtrip [simp]: "guid_of_bytes (guid_bytes g) = g"
  by (simp add: guid_of_bytes_def guid_bytes_def le_word_le_bytes)

lemma header_roundtrip [simp]: "header_of_bytes (header_bytes h) = h"
  by (simp add: header_of_bytes_def header_bytes_def le_word_le_bytes)

lemma disk_read_iff:
  "read_fault d a n = None \<Longrightarrow>
   grub_disk_read d a n = Inr bs \<longleftrightarrow>
     length bs = n \<and> (\<forall>i<n. bs ! i = media d (unat a * 512 + i))"
  by (auto simp: grub_disk_read_def list_eq_iff_nth_eq)

lemma example_geometry [simp]:
  "disk_log_sector_size example_disk = 9" "total_sectors example_disk = 2048"
  "read_fault example_disk a n = None" "media example_disk = example_media"
  by (simp_all add: example_disk_def)

lemma length_example_mbr [simp]: "length example_mbr = 512"
  by (simp add: example_mbr_def)

lemma example_read_mbr: "grub_disk_read example_disk 0 512 = Inr example_mbr"
  by (subst disk_read_iff) (simp_all add: example_media_def)

lemma example_read_primary_header:
  "grub_disk_read example_disk 1 92 = Inr (header_bytes example_primary)"
  by (subst disk_read_iff) (simp_all add: example_media_def)

lemma example_read_backup_header:
  "grub_disk_read example_disk 2047 92 = Inr (header_bytes example_backup)"
  by (subst disk_read_iff) (simp_all add: example_media_def)

lemma example_read_primary_entries:
  "grub_disk_read example_disk 2 16384 = Inr example_entries"
  by (subst disk_read_iff) (simp_all add: example_media_def example_entries_def)

lemma example_read_backup_entries:
  "grub_disk_read example_disk 2015 16384 = Inr example_entries"
  by (subst disk_read_iff) (simp_all add: example_media_def example_entries_def)

lemma example_pmbr: "grub_gpt_pmbr_check example_env example_mbr = None"
proof -
  have "take 2 (drop 510 example_mbr) = [example_mbr ! 510, example_mbr ! 511]"
    by (rule nth_equalityI) (auto simp: less_Suc_eq numeral_2_eq_2)
  hence sig: "mbr_signature example_mbr = 0xAA55"
    by (simp add: mbr_signature_def le_word_def) (simp add: example_mbr_def)
  have "mbr_entry_type example_env example_mbr 0 = 0xEE"
    by (simp add: mbr_entry_type_def) (simp add: example_mbr_def)
  hence "\<exists>i \<in> set [0..<64]. mbr_entry_type example_env example_mbr i = 0xEE"
    by (intro bexI[of _ 0]) simp_all
  thus ?thesis using sig by (simp add: grub_gpt_pmbr_check_def)
qed

lemma example_read_entries:
  "log_sector_size g = 9 \<Longrightarrow>
   grub_gpt_read_entries example_env example_disk g example_primary = Inr (example_entries, 16384)"
  "log_sector_size g = 9 \<Longrightarrow>
   grub_gpt_read_entries example_env example_disk g example_backup = Inr (example_entries, 16384)"
  by (simp_all add: grub_gpt_read_entries_def Let_def GRUB_GPT_DEFAULT_ENTRIES_SIZE_def
      example_read_primary_entries example_read_backup_entries)
     (simp_all add: example_env_def)

lemma example_gpt_with_mbr:
  "gpt_with_mbr example_env example_mbr =
     zero_gpt\<lparr>mbr := example_mbr, status := GRUB_GPT_PROTECTIVE_MBR\<rparr>"
  by (simp add: gpt_with_mbr_def example_pmbr Let_def)

lemma example_read_primary:
  "grub_gpt_read_primary example_env example_disk (gpt_with_mbr example_env example_mbr) =
     (None, zero_gpt\<lparr>mbr := example_mbr, log_sector_size := 9, primary := example_primary,
        entries := example_entries, entries_size := 16384,
        status := GRUB_GPT_PROTECTIVE_MBR OR GRUB_GPT_PRIMARY_HEADER_VALID OR
                  GRUB_GPT_PRIMARY_ENTRIES_VALID\<rparr>)"
  by (simp add: grub_gpt_read_primary_def example_gpt_with_mbr Let_def sizeof_header_def
      example_read_primary_header check_primary_example example_read_entries
      word_bw_assocs)

lemma example_read_backup:
  "grub_gpt_read_backup example_env example_disk
     (zero_gpt\<lparr>mbr := example_mbr, log_sector_size := 9, primary := example_primary,
        entries := example_entries, entries_size := 16384,
        status := GRUB_GPT_PROTECTIVE_MBR OR GRUB_GPT_PRIMARY_HEADER_VALID OR
                  GRUB_GPT_PRIMARY_ENTRIES_VALID\<rparr>) = (None, example_gpt)"
proof -
  have st: "GRUB_GPT_PROTECTIVE_MBR OR GRUB_GPT_PRIMARY_HEADER_VALID OR
        GRUB_GPT_PRIMARY_ENTRIES_VALID OR GRUB_GPT_BACKUP_HEADER_VALID OR
        GRUB_GPT_BACKUP_ENTRIES_VALID = GRUB_GPT_PROTECTIVE_MBR OR GRUB_GPT_BOTH_VALID"
    by (simp add: GRUB_GPT_BOTH_VALID_def GRUB_GPT_PRIMARY_VALID_def GRUB_GPT_BACKUP_VALID_def
        word_bw_assocs)
  show ?thesis
    by (simp add: grub_gpt_read_backup_def backup_sector_def Let_def sizeof_header_def
      example_read_backup_header check_backup_example example_read_entries example_size_valid
      bit_or_iff word_le_nat_alt word_bw_assocs st)
      (simp add: example_gpt_def zero_gpt_def)
qed

lemma example_read_gpt:
  "grub_gpt_read example_env example_disk es = (Some example_gpt, es\<lparr>grub_errno := None\<rparr>)"
  by (simp add: grub_gpt_read_def example_read_mbr example_pmbr example_read_primary
      example_read_backup set_errno_def primary_valid_iff)
     (simp add: example_env_def)

lemma example_guid_str:
  "grub_gpt_guid_to_str example_env example_guid = Some ''01234567-89ab-cdef-0102-030405060708''"
  by (simp add: grub_gpt_guid_to_str_def example_env_def example_guid_def hex_field_def
      hex_digit_def data4_at_def upt_rec drop_bit_eq_div)

section \<open>Facts about the size of the entry array\<close>

lemma unat_mult32_widened:
  "unat (ucast (c * s :: 32 word) :: 64 word) = (unat c * unat s) mod 2 ^ 32"
  by (simp add: unat_ucast_32_64 unat_word_ariths)

lemma inverse_check_iff:
  fixes c s :: "32 word"
  shows "(s \<noteq> 0 \<and> (ucast (c * s) :: 64 word) div ucast s \<noteq> ucast c) \<longleftrightarrow>
         unat c * unat s \<ge> 2 ^ 32"
proof -
  define C where "C = unat c"
  define S where "S = unat s"
  define P where "P = (C * S) mod 2 ^ 32"
  have s0: "s \<noteq> 0 \<longleftrightarrow> S \<noteq> 0" by (simp add: S_def unat_eq_0)
  have "(ucast (c * s) :: 64 word) div ucast s = ucast c \<longleftrightarrow>
        unat ((ucast (c * s) :: 64 word) div ucast s) = unat (ucast c :: 64 word)"
    by (simp add: word_unat_eq_iff)
  also have "\<dots> \<longleftrightarrow> P div S = C"
    using unat_word_ariths(2)[of c s]
    by (simp add: unat_div unat_ucast_32_64 P_def C_def S_def)
  finally have eq: "(ucast (c * s) :: 64 word) div ucast s = ucast c \<longleftrightarrow> P div S = C" .
  have "(S \<noteq> 0 \<and> P div S \<noteq> C) \<longleftrightarrow> C * S \<ge> 2 ^ 32"
  proof
    assume a: "S \<noteq> 0 \<and> P div S \<noteq> C"
    show "C * S \<ge> 2 ^ 32"
    proof (rule ccontr)
      assume "\<not> C * S \<ge> 2 ^ 32"
      hence "P = C * S" by (simp add: P_def)
      with a show False by (auto split: if_splits)
    qed
  next
    assume b: "C * S \<ge> 2 ^ 32"
    hence S0: "S \<noteq> 0" by (cases "S = 0") simp_all
    have "P < 2 ^ 32" by (simp add: P_def)
    hence "P < C * S" using b by simp
    hence "P div S < C" using S0 by (simp add: div_less_iff_less_mult)
    thus "S \<noteq> 0 \<and> P div S \<noteq> C" using S0 by simp
  qed
  thus ?thesis unfolding eq s0 C_def S_def .
qed

lemma disk_read_length: "grub_disk_read d a n = Inr buf \<Longrightarrow> length buf = n"
  by (auto simp: grub_disk_read_def split: option.splits)

section \<open>Facts about locating and checking the backup\<close>

lemma unat_2p51: "unat (push_bit 51 (1 :: 64 word)) = 2 ^ 51"
  by simp

lemma disk_size_valid_no_wrap:
  assumes lo: "9 \<le> disk_log_sector_size disk"
    and nw: "unat (total_sectors disk) * 2 ^ (unat (disk_log_sector_size disk) - 9) < 2 ^ 64"
  shows "grub_gpt_disk_size_valid disk \<longleftrightarrow>
         unat (total_sectors disk) * 2 ^ (unat (disk_log_sector_size disk) - 9) \<le> 2 ^ 51"
proof -
  define k where "k = unat (disk_log_sector_size disk) - 9"
  have "unat (disk_log_sector_size disk - 9) = unat (disk_log_sector_size disk) - unat (9 :: 32 word)"
    using lo by (simp add: unat_sub)
  hence k: "unat (disk_log_sector_size disk - GRUB_DISK_SECTOR_BITS) = k"
    by (simp add: k_def GRUB_DISK_SECTOR_BITS_def)
  have "unat (push_bit k (total_sectors disk)) = unat (total_sectors disk) * 2 ^ k"
  proof (cases "total_sectors disk = 0")
    case True
    then show ?thesis by simp
  next
    case False
    hence "1 \<le> unat (total_sectors disk)" by (simp add: unat_gt_0 Suc_leI)
    hence le: "(2::nat) ^ k \<le> unat (total_sectors disk) * 2 ^ k" by simp
    have nw': "unat (total_sectors disk) * 2 ^ k < 2 ^ 64" using nw by (simp add: k_def)
    have "(2::nat) ^ k < 2 ^ 64" by (rule le_less_trans[OF le nw'])
    hence "k < 64" by (simp only: power_strict_increasing_iff[of "2::nat"] one_less_numeral_iff
        semiring_norm)
    hence p: "unat ((2 :: 64 word) ^ k) = 2 ^ k" by (simp add: unat_2p)
    have "unat (total_sectors disk) * unat ((2 :: 64 word) ^ k) < 2 ^ LENGTH(64)"
      using nw' unfolding p by simp
    hence "unat (total_sectors disk * 2 ^ k) = unat (total_sectors disk) * unat ((2 :: 64 word) ^ k)"
      by (simp only: unat_mult_lem)
    thus ?thesis by (simp add: push_bit_eq_mult p)
  qed
  thus ?thesis
    by (simp add: grub_gpt_disk_size_valid_def k word_less_nat_alt Let_def k_def[symmetric] not_less)
qed

lemma backup_sector_cases:
  "backup_sector disk gpt =
     (if status gpt AND GRUB_GPT_PRIMARY_HEADER_VALID \<noteq> 0 then
        if grub_gpt_disk_size_valid disk \<and> alternate_lba (primary gpt) \<ge> total_sectors disk
        then Inl (GRUB_ERR_OUT_OF_RANGE,
                  ''backup GPT located at 0x%llx, beyond last disk sector at 0x%llx'')
        else Inr (alternate_lba (primary gpt))
      else if grub_gpt_disk_size_valid disk then Inr (total_sectors disk - 1)
      else Inl (GRUB_ERR_OUT_OF_RANGE, ''size of disk unknown, cannot locate backup GPT''))"
  by (simp add: backup_sector_def Let_def)

lemma read_backup_out_of_range:
  "backup_sector disk gpt = Inl e \<Longrightarrow> grub_gpt_read_backup env disk gpt = (Some e, gpt)"
  by (simp add: grub_gpt_read_backup_def)

lemma huge_geometry [simp]:
  "disk_log_sector_size huge_disk = 12" "total_sectors huge_disk = 2 ^ 61"
  by (simp_all add: huge_disk_def)

lemma huge_read [simp]: "grub_disk_read huge_disk a n = Inr (replicate n 0)"
  by (simp add: grub_disk_read_def huge_disk_def blank_disk_def map_replicate_const)

lemma guid_bytes_inj: "guid_bytes g = guid_bytes g' \<longleftrightarrow> g = g'"
proof
  assume "guid_bytes g = guid_bytes g'"
  hence "guid_of_bytes (guid_bytes g) = guid_of_bytes (guid_bytes g')" by simp
  thus "g = g'" by simp
qed simp

lemma headers_equal_iff:
  "grub_gpt_headers_equal gpt \<longleftrightarrow>
     headersize (primary gpt) = headersize (backup gpt) \<and>
     header_lba (primary gpt) = alternate_lba (backup gpt) \<and>
     alternate_lba (primary gpt) = header_lba (backup gpt) \<and>
     start (primary gpt) = start (backup gpt) \<and>
     end_lba (primary gpt) = end_lba (backup gpt) \<and>
     maxpart (primary gpt) = maxpart (backup gpt) \<and>
     partentry_size (primary gpt) = partentry_size (backup gpt) \<and>
     partentry_crc32 (primary gpt) = partentry_crc32 (backup gpt) \<and>
     guid (primary gpt) = guid (backup gpt)"
  by (auto simp: grub_gpt_headers_equal_def guid_bytes_inj)

lemma read_entries_length:
  "grub_gpt_read_entries env disk g h = Inr (buf, n) \<Longrightarrow> length buf = unat n"
  by (auto simp: grub_gpt_read_entries_def Let_def split: if_splits sum.splits
      dest: disk_read_length)

lemma primary_only_fields [simp]:
  "primary example_primary_only = example_primary" "backup example_primary_only = zero_header"
  "entries example_primary_only = example_entries" "entries_size example_primary_only = 16384"
  "log_sector_size example_primary_only = 9" "mbr example_primary_only = example_mbr"
  by (simp_all add: example_primary_only_def)

lemma primary_only_bits [simp]:
  "bit (status example_primary_only) n \<longleftrightarrow> n = 0 \<or> n = 2 \<or> n = 3"
  by (auto simp: example_primary_only_def GRUB_GPT_PRIMARY_VALID_def bit_or_iff)

lemma backup_only_fields [simp]:
  "primary example_backup_only = zero_header" "backup example_backup_only = example_backup"
  "entries example_backup_only = example_entries" "entries_size example_backup_only = 16384"
  "log_sector_size example_backup_only = 9" "mbr example_backup_only = example_mbr"
  by (simp_all add: example_backup_only_def)

lemma backup_only_bits [simp]:
  "bit (status example_backup_only) n \<longleftrightarrow> n = 0 \<or> n = 4 \<or> n = 5"
  by (auto simp: example_backup_only_def GRUB_GPT_BACKUP_VALID_def bit_or_iff)

lemma drifted_fields [simp]:
  "header_lba drifted_backup = 2047" "alternate_lba drifted_backup = 1"
  "partitions drifted_backup = 2015" "start drifted_backup = 35" "end_lba drifted_backup = 2014"
  "headersize drifted_backup = 92" "maxpart drifted_backup = 128"
  "partentry_size drifted_backup = 128" "guid drifted_backup = example_guid"
  by (simp_all add: drifted_backup_def)

lemma drifted_header_check: "grub_gpt_header_check example_env drifted_backup 9 = None"
  by (simp add: grub_gpt_header_check_def GRUB_GPT_HEADER_VERSION_def is_pow2_def
      grub_gpt_entries_size_def GRUB_GPT_DEFAULT_ENTRIES_SIZE_def)
     (simp add: drifted_backup_def example_backup_def)

lemma drifted_sectors: "grub_gpt_entries_sectors drifted_backup 9 = 32"
  by (simp add: grub_gpt_entries_sectors_def grub_gpt_entries_size_def)

lemma drifted_geometry [simp]:
  "disk_log_sector_size drifted_disk = 9" "total_sectors drifted_disk = 2048"
  "read_fault drifted_disk a n = None"
  by (simp_all add: drifted_disk_def)

lemma drifted_size_valid: "grub_gpt_disk_size_valid drifted_disk"
  by (simp add: grub_gpt_disk_size_valid_def GRUB_DISK_SECTOR_BITS_def word_less_nat_alt)

lemma drifted_read_backup_header:
  "grub_disk_read drifted_disk 2047 92 = Inr (header_bytes drifted_backup)"
  by (subst disk_read_iff) (simp_all add: drifted_disk_def)

section \<open>Facts about the repairer\<close>




lemma grown_geometry [simp]:
  "disk_log_sector_size grown_disk = 9" "total_sectors grown_disk = 4096"
  by (simp_all add: grown_disk_def)

lemma grown_size_valid: "grub_gpt_disk_size_valid grown_disk"
  by (simp add: grub_gpt_disk_size_valid_def GRUB_DISK_SECTOR_BITS_def word_less_nat_alt)

lemma example_size_to_sectors:
  "log_sector_size g = 9 \<Longrightarrow> grub_gpt_size_to_sectors g 16384 = 32"
  by (simp add: grub_gpt_size_to_sectors_def)

lemma backup_only_repaired:
  "repair_from_backup example_backup_only = example_backup_only\<lparr>primary :=
     example_backup\<lparr>header_lba := 1, alternate_lba := 2047, partitions := 2\<rparr>\<rparr>"
  by (simp add: repair_from_backup_def Let_def)

lemma rebuilt_primary:
  "with_crc example_env (example_backup\<lparr>header_lba := 1, alternate_lba := 2047, partitions := 2,
      headersize := 92, partentry_crc32 := grub_gpt_lecrc32 example_env example_entries 16384\<rparr>)
   = example_primary"
  by (simp add: example_backup_def example_primary_def with_crc_def grub_gpt_header_lecrc32_def)

lemma status_rebuilt:
  "bit s 0 \<Longrightarrow> \<forall>n. bit s n \<longrightarrow> n \<in> {0, 2, 3, 4, 5} \<Longrightarrow>
   ((s AND NOT all_valid_bits) OR
      (GRUB_GPT_PRIMARY_HEADER_VALID OR GRUB_GPT_PRIMARY_ENTRIES_VALID)) OR
     (GRUB_GPT_BACKUP_HEADER_VALID OR GRUB_GPT_BACKUP_ENTRIES_VALID) = status example_gpt"
  for s :: "32 word"
  by (rule bit_word_eqI) (auto simp: bit_or_iff bit_clear_valid)

lemma repair_backup_only:
  "grub_gpt_repair example_env example_disk example_backup_only es =
     (None, example_gpt, es)"
proof -
  have st: "((status example_backup_only AND NOT all_valid_bits) OR
      (GRUB_GPT_PRIMARY_HEADER_VALID OR GRUB_GPT_PRIMARY_ENTRIES_VALID)) OR
     (GRUB_GPT_BACKUP_HEADER_VALID OR GRUB_GPT_BACKUP_ENTRIES_VALID) = status example_gpt"
    by (rule status_rebuilt) auto
  have eq: "example_backup_only\<lparr>status := status example_gpt, primary := example_primary\<rparr>
            = example_gpt"
    by (simp add: example_backup_only_def example_gpt_def)
  show ?thesis
    by (simp add: grub_gpt_repair_def both_valid_iff primary_valid_iff backup_valid_iff
        backup_only_repaired grub_gpt_update_def Let_def update_prepare_simps rebuilt_primary
        example_backup_refresh check_primary_example check_backup_example st)
qed

lemma header_check_sample_like:
  "magic h = grub_gpt_magic \<Longrightarrow> version h = 0x00010000 \<Longrightarrow> headersize h = 92 \<Longrightarrow>
   partentry_size h = 128 \<Longrightarrow> maxpart h = 128 \<Longrightarrow> start h \<le> end_lba h \<Longrightarrow>
   grub_gpt_header_check env (with_crc env h) 9 = None"
  by (simp add: grub_gpt_header_check_def GRUB_GPT_HEADER_VERSION_def is_pow2_def
      grub_gpt_entries_size_def GRUB_GPT_DEFAULT_ENTRIES_SIZE_def not_less)

lemma sample_like_sectors:
  "partentry_size h = 128 \<Longrightarrow> maxpart h = 128 \<Longrightarrow> grub_gpt_entries_sectors h 9 = 32"
  by (simp add: grub_gpt_entries_sectors_def grub_gpt_entries_size_def)

lemma example_primary_more [simp]:
  "magic example_primary = grub_gpt_magic" "version example_primary = 0x00010000"
  by (simp_all add: example_primary_def)

lemma repair_primary_only_grown:
  "fst (grub_gpt_repair example_env grown_disk example_primary_only es) = None \<and>
   status (fst (snd (grub_gpt_repair example_env grown_disk example_primary_only es)))
     = status example_gpt"
proof -
  have st: "((status example_primary_only AND NOT all_valid_bits) OR
      (GRUB_GPT_PRIMARY_HEADER_VALID OR GRUB_GPT_PRIMARY_ENTRIES_VALID)) OR
     (GRUB_GPT_BACKUP_HEADER_VALID OR GRUB_GPT_BACKUP_ENTRIES_VALID) = status example_gpt"
    by (rule status_rebuilt) auto
  show ?thesis
    by (simp add: grub_gpt_repair_def both_valid_iff primary_valid_iff
        repair_from_primary_def grown_size_valid example_size_to_sectors
        grub_gpt_update_def Let_def update_prepare_simps
        grub_gpt_check_primary_def grub_gpt_check_backup_def header_check_sample_like
        sample_like_sectors grub_gpt_headers_equal_def st
        word_le_nat_alt word_less_nat_alt)
qed

section \<open>Facts about the reader's status bits and error state\<close>

lemma read_backup_bits:
  assumes "grub_gpt_read_backup env disk g1 = (rb, g2)"
  shows "bit (status g2) n \<longleftrightarrow>
         bit (status g1) n \<or> (n = 4 \<and> bit (status g2) 4) \<or> (n = 5 \<and> bit (status g2) 5)"
  using assms
  by (auto simp: grub_gpt_read_backup_def Let_def bit_or_iff
      split: sum.splits option.splits if_splits prod.splits)

lemma read_primary_bits:
  assumes "grub_gpt_read_primary env disk g0 = (rp, g1)"
  shows "rp = None \<Longrightarrow> bit (status g1) 2 \<and> bit (status g1) 3"
    and "rp \<noteq> None \<Longrightarrow> bit (status g1) 3 \<longleftrightarrow> bit (status g0) 3"
  using assms
  by (auto simp: grub_gpt_read_primary_def Let_def bit_or_iff
      split: sum.splits option.splits if_splits prod.splits)

lemma gpt_with_mbr_bits: "bit (status (gpt_with_mbr env m)) n \<Longrightarrow> n = 0"
  by (auto simp: gpt_with_mbr_def Let_def bit_or_iff split: option.splits)

lemma push_pop_restores:
  "grub_error_pop (set_errno rb (grub_error_push (es\<lparr>grub_errno := Some e\<rparr>)))
   = es\<lparr>grub_errno := Some e\<rparr>"
  by (cases rb) (simp_all add: grub_error_pop_def grub_error_push_def set_errno_def)

lemma unsized_geometry [simp]:
  "disk_log_sector_size unsized_blank_disk = 9" "total_sectors unsized_blank_disk = 0xFFFFFFFFFFFFFFFF"
  by (simp_all add: unsized_blank_disk_def)

lemma unsized_read [simp]: "grub_disk_read unsized_blank_disk a n = Inr (replicate n 0)"
  by (simp add: grub_disk_read_def unsized_blank_disk_def blank_disk_def map_replicate_const)

lemma unsized_size_unknown: "\<not> grub_gpt_disk_size_valid unsized_blank_disk"
  by (simp add: grub_gpt_disk_size_valid_def GRUB_DISK_SECTOR_BITS_def word_less_nat_alt)

lemma unsized_read_primary:
  "grub_gpt_read_primary env unsized_blank_disk (gpt_with_mbr env (replicate 512 0)) =
     (Some (GRUB_ERR_BAD_PART_TABLE, ''invalid GPT signature''), zero_gpt\<lparr>log_sector_size := 9\<rparr>)"
  by (simp add: grub_gpt_read_primary_def gpt_with_mbr_def sizeof_header_def Let_def
      grub_gpt_check_primary_def zero_gpt_def bad_part_table_def)

lemma unsized_read_backup:
  "grub_gpt_read_backup env unsized_blank_disk (zero_gpt\<lparr>log_sector_size := 9\<rparr>) =
     (Some (GRUB_ERR_OUT_OF_RANGE, ''size of disk unknown, cannot locate backup GPT''),
      zero_gpt\<lparr>log_sector_size := 9\<rparr>)"
  by (simp add: grub_gpt_read_backup_def backup_sector_def unsized_size_unknown)

lemma lost_geometry [simp]:
  "disk_log_sector_size primary_lost_disk = 9" "total_sectors primary_lost_disk = 2048"
  "read_fault primary_lost_disk a n = None"
  by (simp_all add: primary_lost_disk_def)

lemma lost_size_valid: "grub_gpt_disk_size_valid primary_lost_disk"
  by (simp add: grub_gpt_disk_size_valid_def GRUB_DISK_SECTOR_BITS_def word_less_nat_alt)

lemma lost_reads:
  "grub_disk_read primary_lost_disk 0 512 = Inr example_mbr"
  "grub_disk_read primary_lost_disk 1 92 = Inr (replicate 92 0)"
  "grub_disk_read primary_lost_disk 2047 92 = Inr (header_bytes example_backup)"
  "grub_disk_read primary_lost_disk 2015 16384 = Inr example_entries"
  by (subst disk_read_iff; simp add: primary_lost_disk_def example_media_def example_entries_def)+

lemma lost_read_entries:
  "log_sector_size g = 9 \<Longrightarrow>
   grub_gpt_read_entries example_env primary_lost_disk g example_backup =
     Inr (example_entries, 16384)"
  by (simp add: grub_gpt_read_entries_def Let_def GRUB_GPT_DEFAULT_ENTRIES_SIZE_def lost_reads)
     (simp add: example_env_def)

lemma lost_read_primary:
  "grub_gpt_read_primary example_env primary_lost_disk (gpt_with_mbr example_env example_mbr) =
     (Some (GRUB_ERR_BAD_PART_TABLE, ''invalid GPT signature''),
      zero_gpt\<lparr>mbr := example_mbr, log_sector_size := 9, status := GRUB_GPT_PROTECTIVE_MBR\<rparr>)"
  by (simp add: grub_gpt_read_primary_def example_gpt_with_mbr sizeof_header_def Let_def
      lost_reads grub_gpt_check_primary_def bad_part_table_def)
     (simp add: zero_gpt_def)

lemma check_backup_alone:
  "backup g = example_backup \<Longrightarrow> log_sector_size g = 9 \<Longrightarrow> \<not> bit (status g) 2 \<Longrightarrow>
   grub_gpt_check_backup example_env g = None"
  by (simp add: grub_gpt_check_backup_def example_header_check example_sectors
      word_le_nat_alt word_less_nat_alt)

lemma lost_read_backup:
  "grub_gpt_read_backup example_env primary_lost_disk
     (zero_gpt\<lparr>mbr := example_mbr, log_sector_size := 9, status := GRUB_GPT_PROTECTIVE_MBR\<rparr>)
   = (None, example_backup_only)"
proof -
  have st: "GRUB_GPT_PROTECTIVE_MBR OR GRUB_GPT_BACKUP_HEADER_VALID OR
        GRUB_GPT_BACKUP_ENTRIES_VALID = GRUB_GPT_PROTECTIVE_MBR OR GRUB_GPT_BACKUP_VALID"
    by (simp add: GRUB_GPT_BACKUP_VALID_def)
  show ?thesis
    by (simp add: grub_gpt_read_backup_def backup_sector_def Let_def sizeof_header_def
      lost_reads check_backup_alone lost_read_entries lost_size_valid
      bit_or_iff word_bw_assocs st)
      (simp add: example_backup_only_def example_gpt_def zero_gpt_def)
qed

lemma unreadable_geometry [simp]:
  "disk_log_sector_size unreadable_disk = 9" "total_sectors unreadable_disk = 2048"
  "media unreadable_disk = example_media"
  by (simp_all add: unreadable_disk_def example_disk_def)

lemma unreadable_reads:
  "grub_disk_read unreadable_disk 0 512 = Inl (GRUB_ERR_IO, ''read error'')"
  "grub_disk_read unreadable_disk 1 92 = Inr (header_bytes example_primary)"
  "grub_disk_read unreadable_disk 2 16384 = Inr example_entries"
proof -
  show "grub_disk_read unreadable_disk 0 512 = Inl (GRUB_ERR_IO, ''read error'')"
    by (simp add: grub_disk_read_def unreadable_disk_def)
  have nf: "read_fault unreadable_disk 1 n = None" "read_fault unreadable_disk 2 n = None" for n
    by (simp_all add: unreadable_disk_def)
  show "grub_disk_read unreadable_disk 1 92 = Inr (header_bytes example_primary)"
    by (subst disk_read_iff[OF nf(1)]) (simp add: example_media_def)
  show "grub_disk_read unreadable_disk 2 16384 = Inr example_entries"
    by (subst disk_read_iff[OF nf(2)]) (simp add: example_media_def example_entries_def)
qed

lemma huge_read_backup:
  "fst (grub_gpt_read_backup example_env huge_disk (zero_gpt\<lparr>log_sector_size := 12\<rparr>)) =
     Some (GRUB_ERR_BAD_PART_TABLE, ''invalid GPT signature'')"
proof -
  have v: "grub_gpt_disk_size_valid huge_disk"
    by (simp add: grub_gpt_disk_size_valid_def GRUB_DISK_SECTOR_BITS_def word_less_nat_alt)
  have s: "backup_sector huge_disk (zero_gpt\<lparr>log_sector_size := 12\<rparr>) = Inr (2 ^ 61 - 1)"
    by (simp add: backup_sector_def v)
  show ?thesis
    by (simp add: grub_gpt_read_backup_def s sizeof_header_def Let_def grub_gpt_check_backup_def
        bad_part_table_def)
qed

section \<open>Facts about the tampered medium and the handle the reader returns\<close>

lemma tampered_geometry [simp]:
  "disk_log_sector_size tampered_disk = 9" "total_sectors tampered_disk = 2048"
  "read_fault tampered_disk a n = None"
  by (simp_all add: tampered_disk_def example_disk_def)

lemma tampered_size_valid: "grub_gpt_disk_size_valid tampered_disk"
  by (simp add: grub_gpt_disk_size_valid_def GRUB_DISK_SECTOR_BITS_def word_less_nat_alt)

lemma tampered_read_backup_header:
  "grub_disk_read tampered_disk 2047 92 = Inr (header_bytes example_backup)"
  by (subst disk_read_iff) (simp_all add: tampered_disk_def example_disk_def example_media_def)

lemma tampered_read_backup_entries:
  "grub_disk_read tampered_disk 2015 16384 = Inr (example_entries[0 := 1])"
  by (subst disk_read_iff)
     (auto simp: tampered_disk_def example_disk_def example_media_def example_entries_def
        nth_list_update)

lemma tampered_entries: "example_entries[0 := 1] = 1 # replicate 16383 0"
proof -
  have "replicate 16384 (0::byte) = 0 # replicate 16383 0"
    by (simp add: replicate_Suc[symmetric] del: replicate_Suc)
  thus ?thesis by (simp add: example_entries_def)
qed

lemma tampered_crc:
  "grub_gpt_lecrc32 example_env (example_entries[0 := 1]) 16384 \<noteq> partentry_crc32 example_backup"
  by (simp add: tampered_entries)
     (simp add: example_backup_def grub_gpt_lecrc32_def example_env_def example_entries_def
        example_crc_def grub_swap_bytes32_def sum_list_replicate)

lemma tampered_read_entries:
  "log_sector_size g = 9 \<Longrightarrow>
   grub_gpt_read_entries example_env tampered_disk g example_backup =
     Inl (GRUB_ERR_BAD_PART_TABLE, ''invalid GPT entry crc32'')"
  using tampered_crc
  by (simp add: grub_gpt_read_entries_def Let_def GRUB_GPT_DEFAULT_ENTRIES_SIZE_def
      tampered_read_backup_entries bad_part_table_def)
     (simp add: example_env_def)

lemma disk_uuid_after_read:
  assumes "grub_gpt_read env disk es = (Some g, es1)"
  shows "status g AND GRUB_GPT_PRIMARY_HEADER_VALID \<noteq> 0 \<or>
         status g AND GRUB_GPT_BACKUP_HEADER_VALID \<noteq> 0"
    and "fst (disk_uuid_of_handle env g uuid es1) \<noteq> Some (GRUB_ERR_BUG, ''No valid GPT header'')"
proof -
  from read_some_valid[OF assms] have v: "bit (status g) 2 \<or> bit (status g) 4"
    and e: "grub_errno es1 = None"
    by (auto simp: primary_valid_iff backup_valid_iff)
  from v show "status g AND GRUB_GPT_PRIMARY_HEADER_VALID \<noteq> 0 \<or>
         status g AND GRUB_GPT_BACKUP_HEADER_VALID \<noteq> 0" by simp
  from v e show "fst (disk_uuid_of_handle env g uuid es1) \<noteq>
      Some (GRUB_ERR_BUG, ''No valid GPT header'')"
    by (auto simp: disk_uuid_of_handle_def get_header_cases out_of_memory_def
        split: option.splits)
qed

section \<open>Repairer (C1)\<close>



section \<open>Header validation (C2)\<close>

text \<open>
  C2. For every candidate header and every \<open>log_sector_size\<close> below the width of
  \<^verbatim>\<open>unsigned int\<close> (where \<^verbatim>\<open>1U << log_sector_size\<close> is defined),
  \<^verbatim>\<open>grub_gpt_header_check\<close> either succeeds or fails with
  \<^verbatim>\<open>GRUB_ERR_BAD_PART_TABLE\<close>, and it fails if and only if one of these holds: the
  magic is not "EFI PART"; the version is not 0x00010000; the CRC-32 over the 92 bytes of
  the header with its crc32 field zeroed differs from the stored crc32; headersize is below
  92 or above \<open>2 ^ log_sector_size\<close>; partentry_size is below 128, not a multiple of
  128, or partentry_size / 128 is not a power of two; maxpart times partentry_size is below
  16384; first_usable is above last_usable.
\<close>

theorem header_check_iff:
  assumes "lss < 32"
  shows "(grub_gpt_header_check env gpt lss = None \<or>
          (\<exists>msg. grub_gpt_header_check env gpt lss =
                    Some (GRUB_ERR_BAD_PART_TABLE, msg))) \<and>
         ((\<exists>msg. grub_gpt_header_check env gpt lss =
                    Some (GRUB_ERR_BAD_PART_TABLE, msg)) \<longleftrightarrow>
          (le_bytes 8 (magic gpt) \<noteq> map (\<lambda>c. of_nat (of_char c)) ''EFI PART'' \<or>
           version gpt \<noteq> 0x00010000 \<or>
           grub_gpt_lecrc32 env (header_bytes (gpt\<lparr>crc32 := 0\<rparr>)) 92 \<noteq> crc32 gpt \<or>
           unat (headersize gpt) < 92 \<or>
           unat (headersize gpt) > 2 ^ unat lss \<or>
           unat (partentry_size gpt) < 128 \<or>
           \<not> 128 dvd unat (partentry_size gpt) \<or>
           \<not> (\<exists>k. unat (partentry_size gpt) div 128 = 2 ^ k) \<or>
           unat (maxpart gpt) * unat (partentry_size gpt) < 16384 \<or>
           unat (start gpt) > unat (end_lba gpt)))"
proof -
  have hs: "(headersize gpt < 92 \<or> headersize gpt > push_bit (unat lss) (1 :: 32 word))
            \<longleftrightarrow> (unat (headersize gpt) < 92 \<or> unat (headersize gpt) > 2 ^ unat lss)"
    using shift1_32[OF assms] by (simp add: word_less_nat_alt)
  have es: "(grub_gpt_entries_size gpt < GRUB_GPT_DEFAULT_ENTRIES_SIZE) \<longleftrightarrow>
            unat (maxpart gpt) * unat (partentry_size gpt) < 16384"
    by (simp add: word_less_nat_alt entries_size_unat GRUB_GPT_DEFAULT_ENTRIES_SIZE_def)
  have se: "(start gpt > end_lba gpt) \<longleftrightarrow> unat (start gpt) > unat (end_lba gpt)"
    by (simp add: word_less_nat_alt)
  have crc: "(crc32 gpt \<noteq> grub_gpt_header_lecrc32 env gpt) \<longleftrightarrow>
             grub_gpt_lecrc32 env (header_bytes (gpt\<lparr>crc32 := 0\<rparr>)) 92 \<noteq> crc32 gpt"
    by (auto simp: grub_gpt_header_lecrc32_def sizeof_header_def)
  show ?thesis
    unfolding grub_gpt_header_check_def hs es se crc entry_size_ok_iff magic_iff
      GRUB_GPT_HEADER_VERSION_def bad_part_table_def
    by auto
qed

theorem header_check_iff_witness:
  "(9::32 word) < 32 \<and> grub_gpt_header_check example_env example_primary 9 = None \<and>
   grub_gpt_header_check example_env
     (with_crc example_env (example_primary\<lparr>headersize := 600\<rparr>)) 9 =
     Some (GRUB_ERR_BAD_PART_TABLE, ''invalid GPT header size'')"
proof -
  have lt: "(9::32 word) < 32" by simp
  have k: "\<exists>k. (1::nat) = 2 ^ k" by (rule exI[of _ 0]) simp
  have c: "grub_gpt_lecrc32 example_env (header_bytes (example_primary\<lparr>crc32 := 0\<rparr>)) 92
           = crc32 example_primary"
    by (simp add: example_primary_def with_crc_def grub_gpt_header_lecrc32_def sizeof_header_def)
  have one: "grub_gpt_header_check example_env example_primary 9 = None"
    using header_check_iff[OF lt, of example_env example_primary] k
    by (auto simp: c magic_bytes)
  have "\<exists>msg. grub_gpt_header_check example_env
     (with_crc example_env (example_primary\<lparr>headersize := 600\<rparr>)) 9 =
     Some (GRUB_ERR_BAD_PART_TABLE, msg)"
    using header_check_iff[OF lt, of example_env
        "with_crc example_env (example_primary\<lparr>headersize := 600\<rparr>)"]
    by simp
  moreover have "grub_gpt_header_check example_env
     (with_crc example_env (example_primary\<lparr>headersize := 600\<rparr>)) 9 =
     Some (GRUB_ERR_BAD_PART_TABLE, ''invalid GPT header size'') \<or>
     grub_gpt_header_check example_env
     (with_crc example_env (example_primary\<lparr>headersize := 600\<rparr>)) 9 = None"
    by (simp add: grub_gpt_header_check_def GRUB_GPT_HEADER_VERSION_def bad_part_table_def
        word_less_nat_alt)
  ultimately have two: "grub_gpt_header_check example_env
     (with_crc example_env (example_primary\<lparr>headersize := 600\<rparr>)) 9 =
     Some (GRUB_ERR_BAD_PART_TABLE, ''invalid GPT header size'')"
    by auto
  show ?thesis using lt one two by simp
qed

section \<open>Writer (C3)\<close>

text \<open>
  C3. For a handle whose four \<^verbatim>\<open>_VALID\<close> bits are not all set,
  \<^verbatim>\<open>grub_gpt_write\<close> fails with \<^verbatim>\<open>GRUB_ERR_BAD_PART_TABLE\<close> and hands nothing to the
  device. For a handle with all four set: when the size of the medium is known and the
  backup header sector is at or beyond it, the two warning lines are printed ("warning:
  backup GPT located at ..., beyond last disk sector at ..." and "warning: only writing
  primary GPT, the backup GPT must be repaired from the OS") and the writes are those of
  the primary copy alone, each at the primary header sector or the primary entries sector;
  otherwise nothing is printed and the writes of the backup copy come first, and if one of
  them fails the error is returned with no write other than those at the backup header
  sector and the backup entries sector; if none fails, the writes of the primary copy
  follow those of the backup.
\<close>

theorem write_order:
  "(\<not> (status gpt AND GRUB_GPT_PRIMARY_HEADER_VALID \<noteq> 0 \<and>
        status gpt AND GRUB_GPT_PRIMARY_ENTRIES_VALID \<noteq> 0 \<and>
        status gpt AND GRUB_GPT_BACKUP_HEADER_VALID \<noteq> 0 \<and>
        status gpt AND GRUB_GPT_BACKUP_ENTRIES_VALID \<noteq> 0) \<longrightarrow>
      grub_gpt_write disk gpt = (Some (GRUB_ERR_BAD_PART_TABLE, ''Invalid GPT data''), [], [])) \<and>
   (status gpt AND GRUB_GPT_PRIMARY_HEADER_VALID \<noteq> 0 \<and>
    status gpt AND GRUB_GPT_PRIMARY_ENTRIES_VALID \<noteq> 0 \<and>
    status gpt AND GRUB_GPT_BACKUP_HEADER_VALID \<noteq> 0 \<and>
    status gpt AND GRUB_GPT_BACKUP_ENTRIES_VALID \<noteq> 0 \<longrightarrow>
      (if grub_gpt_disk_size_valid disk \<and> header_lba (backup gpt) \<ge> total_sectors disk then
         grub_gpt_write disk gpt =
           (fst (grub_gpt_write_table disk gpt (primary gpt)),
            snd (grub_gpt_write_table disk gpt (primary gpt)),
            [''warning: backup GPT located at 0x%llx, beyond last disk sector at 0x%llx'',
             ''warning: only writing primary GPT, the backup GPT must be repaired from the OS'']) \<and>
         (\<forall>w \<in> set (fst (snd (grub_gpt_write disk gpt))).
            fst w = grub_gpt_sector_to_addr gpt (header_lba (primary gpt)) \<or>
            fst w = grub_gpt_sector_to_addr gpt (partitions (primary gpt)))
       else if fst (grub_gpt_write_table disk gpt (backup gpt)) \<noteq> None then
         grub_gpt_write disk gpt =
           (fst (grub_gpt_write_table disk gpt (backup gpt)),
            snd (grub_gpt_write_table disk gpt (backup gpt)), []) \<and>
         (\<forall>w \<in> set (fst (snd (grub_gpt_write disk gpt))).
            fst w = grub_gpt_sector_to_addr gpt (header_lba (backup gpt)) \<or>
            fst w = grub_gpt_sector_to_addr gpt (partitions (backup gpt)))
       else
         grub_gpt_write disk gpt =
           (fst (grub_gpt_write_table disk gpt (primary gpt)),
            snd (grub_gpt_write_table disk gpt (backup gpt)) @
            snd (grub_gpt_write_table disk gpt (primary gpt)), [])))"
proof -
  have bv: "grub_gpt_both_valid gpt \<longleftrightarrow>
      (status gpt AND GRUB_GPT_PRIMARY_HEADER_VALID \<noteq> 0 \<and>
        status gpt AND GRUB_GPT_PRIMARY_ENTRIES_VALID \<noteq> 0 \<and>
        status gpt AND GRUB_GPT_BACKUP_HEADER_VALID \<noteq> 0 \<and>
        status gpt AND GRUB_GPT_BACKUP_ENTRIES_VALID \<noteq> 0)"
    by (simp add: both_valid_iff)
  show ?thesis
    unfolding bv[symmetric]
    using write_table_addrs[of _ disk gpt "backup gpt"]
      write_table_addrs[of _ disk gpt "primary gpt"]
    by (auto simp: grub_gpt_write_def bad_part_table_def Let_def split: prod.splits option.splits)
qed

theorem write_order_witness:
  "grub_gpt_write example_disk example_gpt =
     (None, [(2047, header_bytes example_backup), (2015, example_entries),
             (1, header_bytes example_primary), (2, example_entries)], []) \<and>
   grub_gpt_write example_disk zero_gpt =
     (Some (GRUB_ERR_BAD_PART_TABLE, ''Invalid GPT data''), [], []) \<and>
   grub_gpt_write
     (example_disk\<lparr>write_fault :=
        (\<lambda>addr len. if addr = 2015 then Some (GRUB_ERR_IO, ''write error'') else None)\<rparr>)
     example_gpt =
     (Some (GRUB_ERR_IO, ''write error''),
      [(2047, header_bytes example_backup), (2015, example_entries)], []) \<and>
   grub_gpt_write (example_disk\<lparr>total_sectors := 1024\<rparr>) example_gpt =
     (None, [(1, header_bytes example_primary), (2, example_entries)],
      [''warning: backup GPT located at 0x%llx, beyond last disk sector at 0x%llx'',
       ''warning: only writing primary GPT, the backup GPT must be repaired from the OS''])"
proof -
  have noskip: "\<not> (grub_gpt_disk_size_valid example_disk \<and>
                  header_lba (backup example_gpt) \<ge> total_sectors example_disk)"
    by (simp add: example_disk_def word_le_nat_alt)
  have one: "grub_gpt_write example_disk example_gpt =
     (None, [(2047, header_bytes example_backup), (2015, example_entries),
             (1, header_bytes example_primary), (2, example_entries)], [])"
    using write_order[of example_gpt example_disk] noskip
    by (simp add: example_write_table)
  have z: "status zero_gpt = 0" by (simp add: zero_gpt_def)
  have two: "grub_gpt_write example_disk zero_gpt =
     (Some (GRUB_ERR_BAD_PART_TABLE, ''Invalid GPT data''), [], [])"
    using write_order[of zero_gpt example_disk] by (simp add: z)
  define faulty where "faulty = example_disk\<lparr>write_fault :=
        (\<lambda>addr len. if addr = 2015 then Some (GRUB_ERR_IO, ''write error'') else None)\<rparr>"
  have noskip3: "\<not> (grub_gpt_disk_size_valid faulty \<and>
                  header_lba (backup example_gpt) \<ge> total_sectors faulty)"
    by (simp add: faulty_def example_disk_def word_le_nat_alt)
  have wt3: "grub_gpt_write_table faulty example_gpt example_backup =
     (Some (GRUB_ERR_IO, ''write error''),
      [(2047, header_bytes example_backup), (2015, example_entries)])"
    by (simp add: grub_gpt_write_table_def sizeof_header_def Let_def grub_disk_write_def
      example_disk_def example_entries_def word_less_nat_alt faulty_def)
  have three: "grub_gpt_write faulty example_gpt =
     (Some (GRUB_ERR_IO, ''write error''),
      [(2047, header_bytes example_backup), (2015, example_entries)], [])"
    using write_order[of example_gpt faulty] noskip3 by (simp add: wt3)
  define small where "small = example_disk\<lparr>total_sectors := 1024\<rparr>"
  have skip4: "grub_gpt_disk_size_valid small \<and>
                  header_lba (backup example_gpt) \<ge> total_sectors small"
    by (simp add: small_def example_disk_def word_le_nat_alt grub_gpt_disk_size_valid_def
        GRUB_DISK_SECTOR_BITS_def word_less_nat_alt)
  have wt4: "grub_gpt_write_table small example_gpt example_primary =
     (None, [(1, header_bytes example_primary), (2, example_entries)])"
    by (simp add: grub_gpt_write_table_def sizeof_header_def Let_def grub_disk_write_def
      example_disk_def example_entries_def word_less_nat_alt small_def)
  have four: "grub_gpt_write small example_gpt =
     (None, [(1, header_bytes example_primary), (2, example_entries)],
      [''warning: backup GPT located at 0x%llx, beyond last disk sector at 0x%llx'',
       ''warning: only writing primary GPT, the backup GPT must be repaired from the OS''])"
    using write_order[of example_gpt small] skip4 by (simp add: wt4)
  show ?thesis using one two three four unfolding faulty_def small_def by simp
qed

section \<open>Updater (C4)\<close>

text \<open>
  C4, as the code has it. \<^verbatim>\<open>grub_gpt_update\<close> clears the four \<^verbatim>\<open>_VALID\<close>
  bits before it re-validates (\<open>update_prepare\<close> is the handle at that point). When the
  primary header fails re-validation, the updater returns \<^verbatim>\<open>GRUB_ERR_BUG\<close> "Generated
  invalid GPT primary header" and leaves the handle as it was then, none of the four bits
  set. When the primary passes and the backup, checked on the handle that has the two
  primary bits set already, fails re-validation, the updater returns \<^verbatim>\<open>GRUB_ERR_BUG\<close>
  "Generated invalid GPT backup header" with the two primary bits set and the two backup
  bits clear. When both pass, it returns success with all four bits set.
\<close>

theorem update_status_bits:
  "status (update_prepare env gpt) AND GRUB_GPT_PRIMARY_HEADER_VALID = 0 \<and>
   status (update_prepare env gpt) AND GRUB_GPT_PRIMARY_ENTRIES_VALID = 0 \<and>
   status (update_prepare env gpt) AND GRUB_GPT_BACKUP_HEADER_VALID = 0 \<and>
   status (update_prepare env gpt) AND GRUB_GPT_BACKUP_ENTRIES_VALID = 0 \<and>
   (grub_gpt_check_primary env (update_prepare env gpt) \<noteq> None \<longrightarrow>
      fst (grub_gpt_update env gpt es) =
        Some (GRUB_ERR_BUG, ''Generated invalid GPT primary header'') \<and>
      fst (snd (grub_gpt_update env gpt es)) = update_prepare env gpt) \<and>
   (grub_gpt_check_primary env (update_prepare env gpt) = None \<and>
    grub_gpt_check_backup env
      ((update_prepare env gpt)\<lparr>status := status (update_prepare env gpt) OR
         (GRUB_GPT_PRIMARY_HEADER_VALID OR GRUB_GPT_PRIMARY_ENTRIES_VALID)\<rparr>) \<noteq> None \<longrightarrow>
      fst (grub_gpt_update env gpt es) =
        Some (GRUB_ERR_BUG, ''Generated invalid GPT backup header'') \<and>
      status (fst (snd (grub_gpt_update env gpt es))) AND GRUB_GPT_PRIMARY_HEADER_VALID \<noteq> 0 \<and>
      status (fst (snd (grub_gpt_update env gpt es))) AND GRUB_GPT_PRIMARY_ENTRIES_VALID \<noteq> 0 \<and>
      status (fst (snd (grub_gpt_update env gpt es))) AND GRUB_GPT_BACKUP_HEADER_VALID = 0 \<and>
      status (fst (snd (grub_gpt_update env gpt es))) AND GRUB_GPT_BACKUP_ENTRIES_VALID = 0) \<and>
   (grub_gpt_check_primary env (update_prepare env gpt) = None \<and>
    grub_gpt_check_backup env
      ((update_prepare env gpt)\<lparr>status := status (update_prepare env gpt) OR
         (GRUB_GPT_PRIMARY_HEADER_VALID OR GRUB_GPT_PRIMARY_ENTRIES_VALID)\<rparr>) = None \<longrightarrow>
      fst (grub_gpt_update env gpt es) = None \<and>
      status (fst (snd (grub_gpt_update env gpt es))) AND GRUB_GPT_PRIMARY_HEADER_VALID \<noteq> 0 \<and>
      status (fst (snd (grub_gpt_update env gpt es))) AND GRUB_GPT_PRIMARY_ENTRIES_VALID \<noteq> 0 \<and>
      status (fst (snd (grub_gpt_update env gpt es))) AND GRUB_GPT_BACKUP_HEADER_VALID \<noteq> 0 \<and>
      status (fst (snd (grub_gpt_update env gpt es))) AND GRUB_GPT_BACKUP_ENTRIES_VALID \<noteq> 0)"
  by (auto simp: grub_gpt_update_def Let_def update_prepare_simps bit_or_iff bit_clear_valid
      split: option.splits)

theorem update_status_bits_witness:
  "fst (grub_gpt_update example_env example_gpt no_error) = None \<and>
   status (fst (snd (grub_gpt_update example_env example_gpt no_error))) AND all_valid_bits
     = all_valid_bits \<and>
   fst (grub_gpt_update example_env (example_gpt\<lparr>primary := zero_header\<rparr>) no_error) =
     Some (GRUB_ERR_BUG, ''Generated invalid GPT primary header'') \<and>
   status (fst (snd (grub_gpt_update example_env (example_gpt\<lparr>primary := zero_header\<rparr>)
     no_error))) AND all_valid_bits = 0 \<and>
   fst (grub_gpt_update example_env (example_gpt\<lparr>backup := zero_header\<rparr>) no_error) =
     Some (GRUB_ERR_BUG, ''Generated invalid GPT backup header'') \<and>
   status (fst (snd (grub_gpt_update example_env (example_gpt\<lparr>backup := zero_header\<rparr>)
     no_error))) AND all_valid_bits =
     GRUB_GPT_PRIMARY_HEADER_VALID OR GRUB_GPT_PRIMARY_ENTRIES_VALID"
proof -
  let ?U = "grub_gpt_update example_env example_gpt no_error"
  have p1: "grub_gpt_check_primary example_env (update_prepare example_env example_gpt) = None"
    by (simp add: check_primary_example update_prepare_simps example_primary_refresh)
  have b1: "grub_gpt_check_backup example_env
      ((update_prepare example_env example_gpt)\<lparr>status :=
         status (update_prepare example_env example_gpt) OR
         (GRUB_GPT_PRIMARY_HEADER_VALID OR GRUB_GPT_PRIMARY_ENTRIES_VALID)\<rparr>) = None"
    by (simp add: check_backup_example update_prepare_simps example_primary_refresh
        example_backup_refresh)
  from update_status_bits[of example_env example_gpt no_error] p1 b1
  have r1: "fst ?U = None" and
    "bit (status (fst (snd ?U))) 2 \<and> bit (status (fst (snd ?U))) 3 \<and>
     bit (status (fst (snd ?U))) 4 \<and> bit (status (fst (snd ?U))) 5"
    by simp_all
  hence "status (fst (snd ?U)) AND all_valid_bits = all_valid_bits"
    unfolding and_eq_mask_iff all_valid_bits_def by (auto simp: bit_or_iff)
  with r1 have one: "fst ?U = None \<and> status (fst (snd ?U)) AND all_valid_bits = all_valid_bits"
    by simp
  let ?Z = "example_gpt\<lparr>primary := zero_header\<rparr>"
  let ?V = "grub_gpt_update example_env ?Z no_error"
  have p2: "grub_gpt_check_primary example_env (update_prepare example_env ?Z) \<noteq> None"
    by (simp add: update_prepare_simps grub_gpt_check_primary_def zero_header_check)
  from update_status_bits[of example_env ?Z no_error] p2
  have r2: "fst ?V = Some (GRUB_ERR_BUG, ''Generated invalid GPT primary header'')"
    and g2: "fst (snd ?V) = update_prepare example_env ?Z"
    by simp_all
  have "status (update_prepare example_env ?Z) AND all_valid_bits = 0"
    using update_status_bits[of example_env ?Z no_error]
    unfolding and_eq_zero_iff all_valid_bits_def by (auto simp: bit_or_iff)
  with r2 g2 have two: "fst ?V = Some (GRUB_ERR_BUG, ''Generated invalid GPT primary header'') \<and>
    status (fst (snd ?V)) AND all_valid_bits = 0" by simp
  let ?B = "example_gpt\<lparr>backup := zero_header\<rparr>"
  let ?W = "grub_gpt_update example_env ?B no_error"
  have p3: "grub_gpt_check_primary example_env (update_prepare example_env ?B) = None"
    by (simp add: check_primary_example update_prepare_simps example_primary_refresh)
  have b3: "grub_gpt_check_backup example_env
      ((update_prepare example_env ?B)\<lparr>status :=
         status (update_prepare example_env ?B) OR
         (GRUB_GPT_PRIMARY_HEADER_VALID OR GRUB_GPT_PRIMARY_ENTRIES_VALID)\<rparr>) \<noteq> None"
    by (simp add: update_prepare_simps grub_gpt_check_backup_def zero_header_check)
  from update_status_bits[of example_env ?B no_error] p3 b3
  have r3: "fst ?W = Some (GRUB_ERR_BUG, ''Generated invalid GPT backup header'')" and
    "bit (status (fst (snd ?W))) 2 \<and> bit (status (fst (snd ?W))) 3 \<and>
     \<not> bit (status (fst (snd ?W))) 4 \<and> \<not> bit (status (fst (snd ?W))) 5"
    by simp_all
  hence "status (fst (snd ?W)) AND all_valid_bits =
     GRUB_GPT_PRIMARY_HEADER_VALID OR GRUB_GPT_PRIMARY_ENTRIES_VALID"
    unfolding all_valid_bits_def
    by (intro bit_word_eqI) (auto simp: bit_and_iff bit_or_iff)
  with r3 have three: "fst ?W = Some (GRUB_ERR_BUG, ''Generated invalid GPT backup header'') \<and>
    status (fst (snd ?W)) AND all_valid_bits =
     GRUB_GPT_PRIMARY_HEADER_VALID OR GRUB_GPT_PRIMARY_ENTRIES_VALID" by simp
  show ?thesis using one two three by simp
qed

text \<open>
  The claim as stated ("on any failure of update no \<^verbatim>\<open>_VALID\<close> bit is set") fails
  for the sample handle with its backup header zeroed: the updater returns
  \<^verbatim>\<open>GRUB_ERR_BUG\<close> and leaves \<^verbatim>\<open>GRUB_GPT_PRIMARY_HEADER_VALID\<close> set.
\<close>

theorem update_partial_failure_counterexample:
  "fst (grub_gpt_update example_env (example_gpt\<lparr>backup := zero_header\<rparr>) no_error)
     = Some (GRUB_ERR_BUG, ''Generated invalid GPT backup header'') \<and>
   status (fst (snd (grub_gpt_update example_env (example_gpt\<lparr>backup := zero_header\<rparr>) no_error)))
     AND GRUB_GPT_PRIMARY_HEADER_VALID \<noteq> 0"
  by (simp add: grub_gpt_update_def Let_def check_primary_example
        update_prepare_simps example_primary_refresh grub_gpt_check_backup_def
        zero_header_check bit_or_iff)

section \<open>Backup out of sync (C5)\<close>

text \<open>
  C5, as the code has it. When the primary header has validated and the backup header
  passes its own checks (the generic header check, alternate_lba 1, entries above
  last_usable and ending at or below the header, header above last_usable) but the two
  headers are not mirror-consistent (equal headersize, swapped header_lba and
  alternate_lba, equal first_usable, last_usable, maxpart, partentry_size, partentry_crc32
  and guid), \<^verbatim>\<open>grub_gpt_check_backup\<close> fails with \<^verbatim>\<open>GRUB_ERR_BAD_PART_TABLE\<close>
  "backup GPT out of sync", the header lookup still gives the primary, and the reader
  returns that error with the status unchanged. When the primary entries are valid and the
  backup entry array has been read and has passed its own CRC check, the reader fails with
  "backup GPT out of sync" unless the array is equal, byte for byte, to the owned buffer;
  when it is equal, the backup entries bit is set. When reading the backup entry array
  fails (its size, the allocation, the device or its CRC check), the reader returns that
  error, with the backup header bit set and no comparison made.
\<close>

theorem backup_out_of_sync_cases:
  "(status gpt AND GRUB_GPT_PRIMARY_HEADER_VALID \<noteq> 0 \<and>
    grub_gpt_header_check env (backup gpt) (log_sector_size gpt) = None \<and>
    alternate_lba (backup gpt) = 1 \<and>
    partitions (backup gpt) > end_lba (backup gpt) \<and>
    partitions (backup gpt) + grub_gpt_entries_sectors (backup gpt) (log_sector_size gpt)
      \<le> header_lba (backup gpt) \<and>
    header_lba (backup gpt) > end_lba (backup gpt) \<and>
    \<not> (headersize (primary gpt) = headersize (backup gpt) \<and>
       header_lba (primary gpt) = alternate_lba (backup gpt) \<and>
       alternate_lba (primary gpt) = header_lba (backup gpt) \<and>
       start (primary gpt) = start (backup gpt) \<and>
       end_lba (primary gpt) = end_lba (backup gpt) \<and>
       maxpart (primary gpt) = maxpart (backup gpt) \<and>
       partentry_size (primary gpt) = partentry_size (backup gpt) \<and>
       partentry_crc32 (primary gpt) = partentry_crc32 (backup gpt) \<and>
       guid (primary gpt) = guid (backup gpt)) \<longrightarrow>
      grub_gpt_check_backup env gpt = Some (GRUB_ERR_BAD_PART_TABLE, ''backup GPT out of sync'') \<and>
      grub_gpt_get_header gpt es = (Some PRIMARY, es)) \<and>
   (backup_sector disk gpt0 = Inr sector \<and>
    grub_disk_read disk (grub_gpt_sector_to_addr gpt0 sector) 92 = Inr bytes \<and>
    grub_gpt_check_backup env (gpt0\<lparr>backup := header_of_bytes bytes\<rparr>) =
      Some (GRUB_ERR_BAD_PART_TABLE, ''backup GPT out of sync'') \<longrightarrow>
      grub_gpt_read_backup env disk gpt0 =
        (Some (GRUB_ERR_BAD_PART_TABLE, ''backup GPT out of sync''),
         gpt0\<lparr>backup := header_of_bytes bytes\<rparr>)) \<and>
   (status gpt0 AND GRUB_GPT_PRIMARY_ENTRIES_VALID \<noteq> 0 \<and>
    length (entries gpt0) = unat (entries_size gpt0) \<and>
    backup_sector disk gpt0 = Inr sector \<and>
    grub_disk_read disk (grub_gpt_sector_to_addr gpt0 sector) 92 = Inr bytes \<and>
    grub_gpt_check_backup env (gpt0\<lparr>backup := header_of_bytes bytes\<rparr>) = None \<and>
    header_lba (header_of_bytes bytes) = sector \<and>
    grub_gpt_read_entries env disk
      (gpt0\<lparr>backup := header_of_bytes bytes,
            status := status gpt0 OR GRUB_GPT_BACKUP_HEADER_VALID\<rparr>)
      (header_of_bytes bytes) = Inr (buf, n) \<longrightarrow>
      grub_gpt_read_backup env disk gpt0 =
        (if buf \<noteq> entries gpt0 then
           (Some (GRUB_ERR_BAD_PART_TABLE, ''backup GPT out of sync''),
            gpt0\<lparr>backup := header_of_bytes bytes,
                 status := status gpt0 OR GRUB_GPT_BACKUP_HEADER_VALID\<rparr>)
         else
           (None,
            gpt0\<lparr>backup := header_of_bytes bytes,
                 status := status gpt0 OR GRUB_GPT_BACKUP_HEADER_VALID OR
                           GRUB_GPT_BACKUP_ENTRIES_VALID\<rparr>))) \<and>
   (backup_sector disk gpt0 = Inr sector \<and>
    grub_disk_read disk (grub_gpt_sector_to_addr gpt0 sector) 92 = Inr bytes \<and>
    grub_gpt_check_backup env (gpt0\<lparr>backup := header_of_bytes bytes\<rparr>) = None \<and>
    header_lba (header_of_bytes bytes) = sector \<and>
    grub_gpt_read_entries env disk
      (gpt0\<lparr>backup := header_of_bytes bytes,
            status := status gpt0 OR GRUB_GPT_BACKUP_HEADER_VALID\<rparr>)
      (header_of_bytes bytes) = Inl e \<longrightarrow>
      grub_gpt_read_backup env disk gpt0 =
        (Some e,
         gpt0\<lparr>backup := header_of_bytes bytes,
              status := status gpt0 OR GRUB_GPT_BACKUP_HEADER_VALID\<rparr>))"
proof (intro conjI impI)
  assume a: "status gpt AND GRUB_GPT_PRIMARY_HEADER_VALID \<noteq> 0 \<and>
    grub_gpt_header_check env (backup gpt) (log_sector_size gpt) = None \<and>
    alternate_lba (backup gpt) = 1 \<and>
    partitions (backup gpt) > end_lba (backup gpt) \<and>
    partitions (backup gpt) + grub_gpt_entries_sectors (backup gpt) (log_sector_size gpt)
      \<le> header_lba (backup gpt) \<and>
    header_lba (backup gpt) > end_lba (backup gpt) \<and>
    \<not> (headersize (primary gpt) = headersize (backup gpt) \<and>
       header_lba (primary gpt) = alternate_lba (backup gpt) \<and>
       alternate_lba (primary gpt) = header_lba (backup gpt) \<and>
       start (primary gpt) = start (backup gpt) \<and>
       end_lba (primary gpt) = end_lba (backup gpt) \<and>
       maxpart (primary gpt) = maxpart (backup gpt) \<and>
       partentry_size (primary gpt) = partentry_size (backup gpt) \<and>
       partentry_crc32 (primary gpt) = partentry_crc32 (backup gpt) \<and>
       guid (primary gpt) = guid (backup gpt))"
  hence ne: "\<not> grub_gpt_headers_equal gpt" unfolding headers_equal_iff by blast
  from a have le: "\<not> partitions (backup gpt) \<le> end_lba (backup gpt)"
    "\<not> header_lba (backup gpt) \<le> end_lba (backup gpt)"
    "\<not> partitions (backup gpt) + grub_gpt_entries_sectors (backup gpt) (log_sector_size gpt)
        > header_lba (backup gpt)"
    by (simp_all add: not_le not_less)
  from a ne le show "grub_gpt_check_backup env gpt =
      Some (GRUB_ERR_BAD_PART_TABLE, ''backup GPT out of sync'')"
    by (simp add: grub_gpt_check_backup_def Let_def backup_out_of_sync_def)
  from a show "grub_gpt_get_header gpt es = (Some PRIMARY, es)"
    by (simp add: get_header_cases)
next
  assume "backup_sector disk gpt0 = Inr sector \<and>
    grub_disk_read disk (grub_gpt_sector_to_addr gpt0 sector) 92 = Inr bytes \<and>
    grub_gpt_check_backup env (gpt0\<lparr>backup := header_of_bytes bytes\<rparr>) =
      Some (GRUB_ERR_BAD_PART_TABLE, ''backup GPT out of sync'')"
  thus "grub_gpt_read_backup env disk gpt0 =
        (Some (GRUB_ERR_BAD_PART_TABLE, ''backup GPT out of sync''),
         gpt0\<lparr>backup := header_of_bytes bytes\<rparr>)"
    by (simp add: grub_gpt_read_backup_def sizeof_header_def Let_def)
next
  assume b: "status gpt0 AND GRUB_GPT_PRIMARY_ENTRIES_VALID \<noteq> 0 \<and>
    length (entries gpt0) = unat (entries_size gpt0) \<and>
    backup_sector disk gpt0 = Inr sector \<and>
    grub_disk_read disk (grub_gpt_sector_to_addr gpt0 sector) 92 = Inr bytes \<and>
    grub_gpt_check_backup env (gpt0\<lparr>backup := header_of_bytes bytes\<rparr>) = None \<and>
    header_lba (header_of_bytes bytes) = sector \<and>
    grub_gpt_read_entries env disk
      (gpt0\<lparr>backup := header_of_bytes bytes,
            status := status gpt0 OR GRUB_GPT_BACKUP_HEADER_VALID\<rparr>)
      (header_of_bytes bytes) = Inr (buf, n)"
  hence len: "length buf = unat n" by (blast dest: read_entries_length)
  have cmp: "(n \<noteq> entries_size gpt0 \<or> take (unat n) buf \<noteq> take (unat n) (entries gpt0))
             \<longleftrightarrow> buf \<noteq> entries gpt0"
  proof (cases "n = entries_size gpt0")
    case True
    with b len show ?thesis by simp
  next
    case False
    hence "unat n \<noteq> unat (entries_size gpt0)" by (simp add: word_unat_eq_iff)
    hence "length buf \<noteq> length (entries gpt0)" using b len by simp
    hence "buf \<noteq> entries gpt0" by auto
    with False show ?thesis by simp
  qed
  from b show "grub_gpt_read_backup env disk gpt0 =
        (if buf \<noteq> entries gpt0 then
           (Some (GRUB_ERR_BAD_PART_TABLE, ''backup GPT out of sync''),
            gpt0\<lparr>backup := header_of_bytes bytes,
                 status := status gpt0 OR GRUB_GPT_BACKUP_HEADER_VALID\<rparr>)
         else
           (None,
            gpt0\<lparr>backup := header_of_bytes bytes,
                 status := status gpt0 OR GRUB_GPT_BACKUP_HEADER_VALID OR
                           GRUB_GPT_BACKUP_ENTRIES_VALID\<rparr>))"
    unfolding cmp[symmetric]
    by (simp add: grub_gpt_read_backup_def sizeof_header_def Let_def bit_or_iff
        backup_out_of_sync_def or.assoc)
next
  assume "backup_sector disk gpt0 = Inr sector \<and>
    grub_disk_read disk (grub_gpt_sector_to_addr gpt0 sector) 92 = Inr bytes \<and>
    grub_gpt_check_backup env (gpt0\<lparr>backup := header_of_bytes bytes\<rparr>) = None \<and>
    header_lba (header_of_bytes bytes) = sector \<and>
    grub_gpt_read_entries env disk
      (gpt0\<lparr>backup := header_of_bytes bytes,
            status := status gpt0 OR GRUB_GPT_BACKUP_HEADER_VALID\<rparr>)
      (header_of_bytes bytes) = Inl e"
  thus "grub_gpt_read_backup env disk gpt0 =
        (Some e,
         gpt0\<lparr>backup := header_of_bytes bytes,
              status := status gpt0 OR GRUB_GPT_BACKUP_HEADER_VALID\<rparr>)"
    by (simp add: grub_gpt_read_backup_def sizeof_header_def Let_def)
qed

theorem backup_out_of_sync_cases_witness:
  "grub_gpt_check_backup example_env (example_primary_only\<lparr>backup := drifted_backup\<rparr>) =
     Some (GRUB_ERR_BAD_PART_TABLE, ''backup GPT out of sync'') \<and>
   grub_gpt_read_backup example_env drifted_disk example_primary_only =
     (Some (GRUB_ERR_BAD_PART_TABLE, ''backup GPT out of sync''),
      example_primary_only\<lparr>backup := drifted_backup\<rparr>) \<and>
   grub_gpt_read_backup example_env example_disk
      (example_primary_only\<lparr>entries := example_entries[0 := 1]\<rparr>) =
     (Some (GRUB_ERR_BAD_PART_TABLE, ''backup GPT out of sync''),
      example_primary_only\<lparr>entries := example_entries[0 := 1], backup := example_backup,
        status := status example_primary_only OR GRUB_GPT_BACKUP_HEADER_VALID\<rparr>) \<and>
   grub_gpt_read_backup example_env example_disk example_primary_only =
     (None,
      example_primary_only\<lparr>backup := example_backup,
        status := status example_primary_only OR GRUB_GPT_BACKUP_HEADER_VALID OR
                  GRUB_GPT_BACKUP_ENTRIES_VALID\<rparr>) \<and>
   grub_gpt_read_backup example_env tampered_disk example_primary_only =
     (Some (GRUB_ERR_BAD_PART_TABLE, ''invalid GPT entry crc32''),
      example_primary_only\<lparr>backup := example_backup,
        status := status example_primary_only OR GRUB_GPT_BACKUP_HEADER_VALID\<rparr>)"
proof -
  let ?D = "example_primary_only\<lparr>backup := drifted_backup\<rparr>"
  have one: "grub_gpt_check_backup example_env ?D =
     Some (GRUB_ERR_BAD_PART_TABLE, ''backup GPT out of sync'')"
    using backup_out_of_sync_cases[where gpt="?D" and env=example_env]
    by (simp add: drifted_header_check drifted_sectors word_le_nat_alt word_less_nat_alt)
  have bs: "backup_sector drifted_disk example_primary_only = Inr 2047"
    by (simp add: backup_sector_def drifted_size_valid word_le_nat_alt)
  have two: "grub_gpt_read_backup example_env drifted_disk example_primary_only =
     (Some (GRUB_ERR_BAD_PART_TABLE, ''backup GPT out of sync''), ?D)"
    using backup_out_of_sync_cases[where env=example_env and disk=drifted_disk
        and ?gpt0.0=example_primary_only and sector=2047
        and bytes="header_bytes drifted_backup"] bs one
    by (simp add: drifted_read_backup_header)
  let ?M = "example_primary_only\<lparr>entries := example_entries[0 := 1]\<rparr>"
  have bs3: "backup_sector example_disk g = Inr 2047"
    if "bit (status g) 2" "primary g = example_primary" for g
    using that by (simp add: backup_sector_def example_size_valid word_le_nat_alt)
  have ne: "example_entries \<noteq> example_entries[0 := 1]"
  proof
    assume "example_entries = example_entries[0 := 1]"
    hence "example_entries ! 0 = example_entries[0 := 1] ! 0" by simp
    thus False by (simp add: example_entries_def)
  qed
  have three: "grub_gpt_read_backup example_env example_disk ?M =
     (Some (GRUB_ERR_BAD_PART_TABLE, ''backup GPT out of sync''),
      ?M\<lparr>backup := example_backup,
        status := status example_primary_only OR GRUB_GPT_BACKUP_HEADER_VALID\<rparr>)"
    using backup_out_of_sync_cases[where env=example_env and disk=example_disk
        and ?gpt0.0="?M" and sector=2047 and bytes="header_bytes example_backup"
        and buf=example_entries and n=16384] ne
    by (simp add: bs3 example_read_backup_header check_backup_example example_read_entries
        example_entries_def[symmetric])
       (simp add: example_entries_def)
  have four: "grub_gpt_read_backup example_env example_disk example_primary_only =
     (None,
      example_primary_only\<lparr>backup := example_backup,
        status := status example_primary_only OR GRUB_GPT_BACKUP_HEADER_VALID OR
                  GRUB_GPT_BACKUP_ENTRIES_VALID\<rparr>)"
    using backup_out_of_sync_cases[where env=example_env and disk=example_disk
        and ?gpt0.0=example_primary_only and sector=2047 and bytes="header_bytes example_backup"
        and buf=example_entries and n=16384]
    by (simp add: bs3 example_read_backup_header check_backup_example example_read_entries)
       (simp add: example_entries_def)
  have bs5: "backup_sector tampered_disk example_primary_only = Inr 2047"
    by (simp add: backup_sector_def tampered_size_valid word_le_nat_alt)
  have five: "grub_gpt_read_backup example_env tampered_disk example_primary_only =
     (Some (GRUB_ERR_BAD_PART_TABLE, ''invalid GPT entry crc32''),
      example_primary_only\<lparr>backup := example_backup,
        status := status example_primary_only OR GRUB_GPT_BACKUP_HEADER_VALID\<rparr>)"
    using backup_out_of_sync_cases[where env=example_env and disk=tampered_disk
        and ?gpt0.0=example_primary_only and sector=2047 and bytes="header_bytes example_backup"
        and e="(GRUB_ERR_BAD_PART_TABLE, ''invalid GPT entry crc32'')"]
    by (simp add: bs5 tampered_read_backup_header check_backup_example tampered_read_entries)
  show ?thesis using one two three four five by simp
qed

text \<open>
  The claim as stated ("any mismatch fails with backup GPT out of sync") fails for the
  sample medium with the first byte of its backup entry array changed, read on a handle
  whose primary entries are valid: the array differs from the owned buffer, and the error
  is that of its CRC check, which runs before the comparison.
\<close>

theorem backup_entries_crc_first_counterexample:
  "status example_primary_only AND GRUB_GPT_PRIMARY_ENTRIES_VALID \<noteq> 0 \<and>
   grub_disk_read tampered_disk 2015 16384 = Inr (example_entries[0 := 1]) \<and>
   example_entries[0 := 1] \<noteq> entries example_primary_only \<and>
   grub_gpt_read_backup example_env tampered_disk example_primary_only =
     (Some (GRUB_ERR_BAD_PART_TABLE, ''invalid GPT entry crc32''),
      example_primary_only\<lparr>backup := example_backup,
        status := status example_primary_only OR GRUB_GPT_BACKUP_HEADER_VALID\<rparr>)"
proof -
  have bs: "backup_sector tampered_disk example_primary_only = Inr 2047"
    by (simp add: backup_sector_def tampered_size_valid word_le_nat_alt)
  have ne: "example_entries[0 := 1] \<noteq> entries example_primary_only"
  proof
    assume "example_entries[0 := 1] = entries example_primary_only"
    hence "example_entries[0 := 1] ! 0 = example_entries ! 0" by simp
    thus False by (simp add: example_entries_def)
  qed
  have r: "grub_gpt_read_backup example_env tampered_disk example_primary_only =
     (Some (GRUB_ERR_BAD_PART_TABLE, ''invalid GPT entry crc32''),
      example_primary_only\<lparr>backup := example_backup,
        status := status example_primary_only OR GRUB_GPT_BACKUP_HEADER_VALID\<rparr>)"
    by (simp add: grub_gpt_read_backup_def bs sizeof_header_def Let_def
        tampered_read_backup_header check_backup_example tampered_read_entries)
  show ?thesis using ne r by (simp add: tampered_read_backup_entries)
qed

section \<open>Reader: which error is reported (C6)\<close>

text \<open>
  C6, as the code has it. When the handle cannot be allocated, or sector 0 cannot be read,
  the reader returns NULL with that error before it tries either copy. Otherwise, with
  \<open>rp\<close> the result of reading the primary copy and \<open>g2\<close> the handle after the backup
  attempt: if reading the primary failed with \<open>e\<close>, the primary is not valid in \<open>g2\<close>;
  when the backup is fully valid the reader returns the handle with no error pending,
  whatever the backup attempt reported, and otherwise it returns NULL with \<open>e\<close>, the
  primary's error, in the error slot and the error stack as it was. If reading the primary
  succeeded, the primary is fully valid in \<open>g2\<close> and the reader returns the handle with
  no error pending, whatever the backup attempt reported. The reader returns a handle
  exactly when one of the copies is fully valid.
\<close>

theorem read_error_disposition:
  "(\<not> malloc_ok env sizeof_gpt \<longrightarrow>
      grub_gpt_read env disk es =
        (None, es\<lparr>grub_errno := Some (GRUB_ERR_OUT_OF_MEMORY, ''out of memory'')\<rparr>)) \<and>
   (malloc_ok env sizeof_gpt \<and> grub_disk_read disk 0 512 = Inl e0 \<longrightarrow>
      grub_gpt_read env disk es = (None, es\<lparr>grub_errno := Some e0\<rparr>)) \<and>
   (malloc_ok env sizeof_gpt \<and> grub_disk_read disk 0 512 = Inr m \<and>
    grub_gpt_read_primary env disk (gpt_with_mbr env m) = (rp, g1) \<and>
    grub_gpt_read_backup env disk g1 = (rb, g2) \<longrightarrow>
      (\<forall>e. rp = Some e \<longrightarrow>
         \<not> grub_gpt_primary_valid g2 \<and>
         grub_gpt_read env disk es =
           (if grub_gpt_backup_valid g2 then (Some g2, es\<lparr>grub_errno := None\<rparr>)
            else (None, es\<lparr>grub_errno := Some e\<rparr>))) \<and>
      (rp = None \<longrightarrow>
         grub_gpt_primary_valid g2 \<and>
         grub_gpt_read env disk es = (Some g2, es\<lparr>grub_errno := None\<rparr>)) \<and>
      (fst (grub_gpt_read env disk es) \<noteq> None \<longleftrightarrow>
         grub_gpt_primary_valid g2 \<or> grub_gpt_backup_valid g2))"
proof -
  have first: "\<not> malloc_ok env sizeof_gpt \<longrightarrow>
      grub_gpt_read env disk es =
        (None, es\<lparr>grub_errno := Some (GRUB_ERR_OUT_OF_MEMORY, ''out of memory'')\<rparr>)"
    by (simp add: grub_gpt_read_def out_of_memory_def)
  have second: "malloc_ok env sizeof_gpt \<and> grub_disk_read disk 0 512 = Inl e0 \<longrightarrow>
      grub_gpt_read env disk es = (None, es\<lparr>grub_errno := Some e0\<rparr>)"
    by (simp add: grub_gpt_read_def)
  have third: "(\<forall>e. rp = Some e \<longrightarrow>
         \<not> grub_gpt_primary_valid g2 \<and>
         grub_gpt_read env disk es =
           (if grub_gpt_backup_valid g2 then (Some g2, es\<lparr>grub_errno := None\<rparr>)
            else (None, es\<lparr>grub_errno := Some e\<rparr>))) \<and>
      (rp = None \<longrightarrow>
         grub_gpt_primary_valid g2 \<and>
         grub_gpt_read env disk es = (Some g2, es\<lparr>grub_errno := None\<rparr>)) \<and>
      (fst (grub_gpt_read env disk es) \<noteq> None \<longleftrightarrow>
         grub_gpt_primary_valid g2 \<or> grub_gpt_backup_valid g2)"
    if a: "malloc_ok env sizeof_gpt \<and> grub_disk_read disk 0 512 = Inr m \<and>
      grub_gpt_read_primary env disk (gpt_with_mbr env m) = (rp, g1) \<and>
      grub_gpt_read_backup env disk g1 = (rb, g2)"
  proof -
    from a have a3: "grub_gpt_read_primary env disk (gpt_with_mbr env m) = (rp, g1)"
      and a4: "grub_gpt_read_backup env disk g1 = (rb, g2)" by simp_all
    have fail: "\<not> grub_gpt_primary_valid g2 \<and>
              grub_gpt_read env disk es =
                (if grub_gpt_backup_valid g2 then (Some g2, es\<lparr>grub_errno := None\<rparr>)
                 else (None, es\<lparr>grub_errno := Some e\<rparr>))" if rp: "rp = Some e" for e
    proof -
      have "\<not> bit (status (gpt_with_mbr env m)) 3"
        using gpt_with_mbr_bits[of env m 3] by auto
      hence "\<not> bit (status g1) 3" using read_primary_bits(2)[OF a3] rp by simp
      hence "\<not> bit (status g2) 3" using read_backup_bits[OF a4, of 3] by simp
      hence npv: "\<not> grub_gpt_primary_valid g2" by (simp add: primary_valid_iff)
      have "grub_gpt_read env disk es =
                (if grub_gpt_backup_valid g2 then (Some g2, es\<lparr>grub_errno := None\<rparr>)
                 else (None, es\<lparr>grub_errno := Some e\<rparr>))"
        using a rp npv
        by (cases "grub_gpt_pmbr_check env m")
           (simp_all add: grub_gpt_read_def Let_def push_pop_restores)
      with npv show ?thesis by simp
    qed
    have ok: "grub_gpt_primary_valid g2 \<and>
              grub_gpt_read env disk es = (Some g2, es\<lparr>grub_errno := None\<rparr>)"
      if rp: "rp = None"
    proof -
      have "bit (status g1) 2 \<and> bit (status g1) 3"
        using read_primary_bits(1)[OF a3] rp by simp
      hence "bit (status g2) 2 \<and> bit (status g2) 3"
        using read_backup_bits[OF a4, of 2] read_backup_bits[OF a4, of 3] by simp
      hence pv: "grub_gpt_primary_valid g2" by (simp add: primary_valid_iff)
      have "grub_gpt_read env disk es = (Some g2, es\<lparr>grub_errno := None\<rparr>)"
        using a rp pv
        by (cases "grub_gpt_pmbr_check env m"; cases rb)
           (simp_all add: grub_gpt_read_def Let_def set_errno_def)
      with pv show ?thesis by simp
    qed
    have iff: "fst (grub_gpt_read env disk es) \<noteq> None \<longleftrightarrow>
              grub_gpt_primary_valid g2 \<or> grub_gpt_backup_valid g2"
    proof (cases rp)
      case None
      with ok show ?thesis by simp
    next
      case (Some e)
      with fail[OF Some] show ?thesis by simp
    qed
    show ?thesis using fail ok iff by blast
  qed
  show ?thesis using first second third by blast
qed

theorem read_error_disposition_witness:
  "grub_gpt_read example_env example_disk no_error = (Some example_gpt, no_error) \<and>
   grub_gpt_read example_env unsized_blank_disk no_error =
     (None, no_error\<lparr>grub_errno := Some (GRUB_ERR_BAD_PART_TABLE, ''invalid GPT signature'')\<rparr>) \<and>
   grub_gpt_read example_env primary_lost_disk no_error = (Some example_backup_only, no_error) \<and>
   grub_gpt_read exhausted_env example_disk no_error =
     (None, no_error\<lparr>grub_errno := Some (GRUB_ERR_OUT_OF_MEMORY, ''out of memory'')\<rparr>) \<and>
   grub_gpt_read example_env unreadable_disk no_error =
     (None, no_error\<lparr>grub_errno := Some (GRUB_ERR_IO, ''read error'')\<rparr>)"
proof -
  have m: "malloc_ok example_env sizeof_gpt" by (simp add: example_env_def)
  have ne: "no_error\<lparr>grub_errno := None\<rparr> = no_error" by (simp add: no_error_def)
  note third = read_error_disposition[THEN conjunct2, THEN conjunct2, THEN mp]
  have one: "grub_gpt_read example_env example_disk no_error = (Some example_gpt, no_error)"
    using third[OF conjI[OF m conjI[OF example_read_mbr
          conjI[OF example_read_primary example_read_backup]]], of no_error]
    by (simp add: ne)
  have two: "grub_gpt_read example_env unsized_blank_disk no_error =
     (None, no_error\<lparr>grub_errno := Some (GRUB_ERR_BAD_PART_TABLE, ''invalid GPT signature'')\<rparr>)"
    using third[OF conjI[OF m conjI[OF unsized_read
          conjI[OF unsized_read_primary unsized_read_backup]]], of no_error]
    by (simp add: backup_valid_iff)
  have three: "grub_gpt_read example_env primary_lost_disk no_error =
     (Some example_backup_only, no_error)"
    using third[OF conjI[OF m conjI[OF lost_reads(1)
          conjI[OF lost_read_primary lost_read_backup]]], of no_error]
    by (simp add: backup_valid_iff ne)
  have four: "grub_gpt_read exhausted_env example_disk no_error =
     (None, no_error\<lparr>grub_errno := Some (GRUB_ERR_OUT_OF_MEMORY, ''out of memory'')\<rparr>)"
    using read_error_disposition[THEN conjunct1, of exhausted_env example_disk no_error]
    by (simp add: exhausted_env_def)
  have five: "grub_gpt_read example_env unreadable_disk no_error =
     (None, no_error\<lparr>grub_errno := Some (GRUB_ERR_IO, ''read error'')\<rparr>)"
    using read_error_disposition[THEN conjunct2, THEN conjunct1, THEN mp,
        OF conjI[OF m unreadable_reads(1)], of no_error]
    by simp
  show ?thesis using one two three four five by simp
qed

text \<open>
  The claim as stated ("for every medium") fails for the sample medium behind a device that
  fails the read of sector 0: the primary copy on it reads and validates, yet the reader
  returns NULL, and the error it reports is the device's, not one of the primary.
\<close>

theorem read_sector0_failure_counterexample:
  "fst (grub_gpt_read_primary example_env unreadable_disk
          (gpt_with_mbr example_env example_mbr)) = None \<and>
   grub_gpt_read example_env unreadable_disk no_error =
     (None, no_error\<lparr>grub_errno := Some (GRUB_ERR_IO, ''read error'')\<rparr>)"
proof -
  have e: "grub_gpt_read_entries example_env unreadable_disk g example_primary =
      Inr (example_entries, 16384)" if "log_sector_size g = 9" for g
    using that
    by (simp add: grub_gpt_read_entries_def Let_def GRUB_GPT_DEFAULT_ENTRIES_SIZE_def
        unreadable_reads)
       (simp add: example_env_def)
  have p: "fst (grub_gpt_read_primary example_env unreadable_disk
          (gpt_with_mbr example_env example_mbr)) = None"
    by (simp add: grub_gpt_read_primary_def example_gpt_with_mbr Let_def sizeof_header_def
        unreadable_reads check_primary_example e)
  have r: "grub_gpt_read example_env unreadable_disk no_error =
     (None, no_error\<lparr>grub_errno := Some (GRUB_ERR_IO, ''read error'')\<rparr>)"
    by (simp add: grub_gpt_read_def unreadable_reads) (simp add: example_env_def)
  show ?thesis using p r by simp
qed

section \<open>Locating the backup (C7)\<close>

text \<open>
  C7 at a medium of 4096-byte sectors that reports \<open>2 ^ 61\<close> sectors, with no valid
  primary. Rescaled to 512-byte blocks the count is \<open>2 ^ 64\<close>, above \<open>2 ^ 51\<close>, so the
  claim has the size unknown and the reader failing with \<^verbatim>\<open>GRUB_ERR_OUT_OF_RANGE\<close>. In
  \<^verbatim>\<open>grub_gpt_disk_size_valid\<close> the 64-bit shift drops the high bits, the size counts as
  known, and the reader goes on to read sector \<open>2 ^ 61 - 1\<close> (\<open>huge_read_backup\<close>: on
  this blank medium it then fails on the signature found there). (Where the shift loses no
  bit, \<open>disk_size_valid_no_wrap\<close> and \<open>backup_sector_cases\<close> give the behaviour the
  claim states.)
\<close>

theorem backup_sector_size_wraparound:
  "\<not> unat (total_sectors huge_disk) * 2 ^ (unat (disk_log_sector_size huge_disk) - 9) \<le> 2 ^ 51 \<and>
   grub_gpt_disk_size_valid huge_disk \<and>
   status (zero_gpt\<lparr>log_sector_size := 12\<rparr>) AND GRUB_GPT_PRIMARY_HEADER_VALID = 0 \<and>
   backup_sector huge_disk (zero_gpt\<lparr>log_sector_size := 12\<rparr>) = Inr (2 ^ 61 - 1)"
proof -
  have v: "grub_gpt_disk_size_valid huge_disk"
    by (simp add: grub_gpt_disk_size_valid_def GRUB_DISK_SECTOR_BITS_def word_less_nat_alt)
  have s: "backup_sector huge_disk (zero_gpt\<lparr>log_sector_size := 12\<rparr>) = Inr (2 ^ 61 - 1)"
    by (simp add: backup_sector_def v)
  show ?thesis using v s by simp
qed

section \<open>Entry-array read (C8)\<close>

text \<open>
  C8, as the code has it. \<^verbatim>\<open>grub_gpt_read_entries\<close> multiplies maxpart by
  partentry_size in 32-bit unsigned arithmetic and widens the product afterwards; its
  inverse-division check fails with \<^verbatim>\<open>GRUB_ERR_OUT_OF_MEMORY\<close> exactly when the true
  product is \<open>2 ^ 32\<close> or more. Below that, it fails with \<^verbatim>\<open>GRUB_ERR_BUG\<close> when the
  product is under 16384, with \<^verbatim>\<open>GRUB_ERR_OUT_OF_MEMORY\<close> when the buffer cannot be
  allocated, with the device's error when the read fails, and with
  \<^verbatim>\<open>GRUB_ERR_BAD_PART_TABLE\<close> when the CRC-32 of the buffer differs from
  partentry_crc32; otherwise it returns the buffer. The read is of exactly the product's
  number of bytes, at the address of partitions_lba.
\<close>

theorem read_entries_cases:
  "grub_gpt_read_entries env disk gpt h =
     (if unat (maxpart h) * unat (partentry_size h) \<ge> 2 ^ 32 then
        Inl (GRUB_ERR_OUT_OF_MEMORY, ''out of memory'')
      else if unat (maxpart h) * unat (partentry_size h) < 16384 then
        Inl (GRUB_ERR_BUG, ''invalid GPT entries table size'')
      else if \<not> malloc_ok env (unat (maxpart h) * unat (partentry_size h)) then
        Inl (GRUB_ERR_OUT_OF_MEMORY, ''out of memory'')
      else
        (case grub_disk_read disk (grub_gpt_sector_to_addr gpt (partitions h))
                (unat (maxpart h) * unat (partentry_size h)) of
           Inl e \<Rightarrow> Inl e
         | Inr buf \<Rightarrow>
             if grub_gpt_lecrc32 env buf (unat (maxpart h) * unat (partentry_size h))
                  \<noteq> partentry_crc32 h
             then Inl (GRUB_ERR_BAD_PART_TABLE, ''invalid GPT entry crc32'')
             else Inr (buf, of_nat (unat (maxpart h) * unat (partentry_size h))))) \<and>
   (\<forall>buf m. grub_gpt_read_entries env disk gpt h = Inr (buf, m) \<longrightarrow>
      length buf = unat (maxpart h) * unat (partentry_size h) \<and>
      unat m = unat (maxpart h) * unat (partentry_size h))"
proof -
  define n where "n = unat (maxpart h) * unat (partentry_size h)"
  define w where "w = (ucast (maxpart h * partentry_size h) :: 64 word)"
  have ov: "(partentry_size h \<noteq> 0 \<and> w div ucast (partentry_size h) \<noteq> ucast (maxpart h))
            \<longleftrightarrow> n \<ge> 2 ^ 32"
    unfolding w_def n_def by (rule inverse_check_iff)
  have small: "\<not> n \<ge> 2 ^ 32 \<Longrightarrow> unat w = n"
    by (simp add: w_def n_def unat_mult32_widened)
  have small': "\<not> n \<ge> 2 ^ 32 \<Longrightarrow> w = of_nat n"
  proof -
    assume "\<not> n \<ge> 2 ^ 32"
    hence "unat w = n" by (rule small)
    hence "(of_nat (unat w) :: 64 word) = of_nat n" by simp
    thus "w = of_nat n" by simp
  qed
  have lt: "\<not> n \<ge> 2 ^ 32 \<Longrightarrow> (w < GRUB_GPT_DEFAULT_ENTRIES_SIZE) \<longleftrightarrow> n < 16384"
    using small by (simp add: word_less_nat_alt GRUB_GPT_DEFAULT_ENTRIES_SIZE_def)
  have main: "grub_gpt_read_entries env disk gpt h =
     (if n \<ge> 2 ^ 32 then Inl (GRUB_ERR_OUT_OF_MEMORY, ''out of memory'')
      else if n < 16384 then Inl (GRUB_ERR_BUG, ''invalid GPT entries table size'')
      else if \<not> malloc_ok env n then Inl (GRUB_ERR_OUT_OF_MEMORY, ''out of memory'')
      else
        (case grub_disk_read disk (grub_gpt_sector_to_addr gpt (partitions h)) n of
           Inl e \<Rightarrow> Inl e
         | Inr buf \<Rightarrow>
             if grub_gpt_lecrc32 env buf n \<noteq> partentry_crc32 h
             then Inl (GRUB_ERR_BAD_PART_TABLE, ''invalid GPT entry crc32'')
             else Inr (buf, of_nat n)))"
  proof (cases "n \<ge> 2 ^ 32")
    case True
    with ov show ?thesis
      by (simp add: grub_gpt_read_entries_def Let_def w_def[symmetric] out_of_memory_def)
  next
    case False
    with ov have nov: "\<not> (partentry_size h \<noteq> 0 \<and>
        w div ucast (partentry_size h) \<noteq> ucast (maxpart h))" by simp
    show ?thesis
      using False nov lt[OF False] small[OF False] small'[OF False]
      by (auto simp: grub_gpt_read_entries_def Let_def w_def[symmetric] out_of_memory_def
          bad_part_table_def split: sum.splits)
  qed
  have len: "\<forall>buf m. grub_gpt_read_entries env disk gpt h = Inr (buf, m) \<longrightarrow>
      length buf = n \<and> unat m = n"
    unfolding main using small small'
    by (auto split: if_splits sum.splits dest: disk_read_length)
  show ?thesis using main len unfolding n_def by blast
qed

theorem read_entries_cases_witness:
  "grub_gpt_read_entries example_env example_disk example_gpt example_primary =
     Inr (example_entries, 16384) \<and>
   grub_gpt_read_entries example_env example_disk example_gpt
     (example_primary\<lparr>partentry_crc32 := 0\<rparr>) =
     Inl (GRUB_ERR_BAD_PART_TABLE, ''invalid GPT entry crc32'') \<and>
   grub_gpt_read_entries example_env example_disk example_gpt
     (example_primary\<lparr>maxpart := 64\<rparr>) =
     Inl (GRUB_ERR_BUG, ''invalid GPT entries table size'')"
proof -
  have m: "malloc_ok example_env n" for n by (simp add: example_env_def)
  have c: "grub_gpt_lecrc32 example_env example_entries 16384 \<noteq> 0"
    by (simp add: grub_gpt_lecrc32_def example_env_def example_entries_def example_crc_def
        grub_swap_bytes32_def sum_list_replicate)
  have one: "grub_gpt_read_entries example_env example_disk example_gpt example_primary =
     Inr (example_entries, 16384)"
    using read_entries_cases[of example_env example_disk example_gpt example_primary]
    by (simp add: m example_read_primary_entries)
  have two: "grub_gpt_read_entries example_env example_disk example_gpt
     (example_primary\<lparr>partentry_crc32 := 0\<rparr>) =
     Inl (GRUB_ERR_BAD_PART_TABLE, ''invalid GPT entry crc32'')"
    using read_entries_cases[of example_env example_disk example_gpt
        "example_primary\<lparr>partentry_crc32 := 0\<rparr>"]
    by (simp add: m example_read_primary_entries c)
  have three: "grub_gpt_read_entries example_env example_disk example_gpt
     (example_primary\<lparr>maxpart := 64\<rparr>) =
     Inl (GRUB_ERR_BUG, ''invalid GPT entries table size'')"
    using read_entries_cases[of example_env example_disk example_gpt
        "example_primary\<lparr>maxpart := 64\<rparr>"]
    by simp
  show ?thesis using one two three by simp
qed

text \<open>
  The claim as stated (the product "computed in 64-bit") fails for a validated header with
  maxpart = partentry_size = 65536: the 64-bit product \<open>2 ^ 32\<close> passes the inverse
  check, yet the code, whose 32-bit product is 0, reports \<^verbatim>\<open>GRUB_ERR_OUT_OF_MEMORY\<close>.
\<close>

theorem read_entries_32bit_product_counterexample:
  "grub_gpt_header_check example_env
     (with_crc example_env (example_primary\<lparr>maxpart := 0x10000, partentry_size := 0x10000\<rparr>)) 9
     = None \<and>
   (ucast (0x10000 :: 32 word) * ucast (0x10000 :: 32 word) :: 64 word) div
      ucast (0x10000 :: 32 word) = ucast (0x10000 :: 32 word) \<and>
   grub_gpt_read_entries example_env example_disk example_gpt
     (with_crc example_env (example_primary\<lparr>maxpart := 0x10000, partentry_size := 0x10000\<rparr>))
     = Inl (GRUB_ERR_OUT_OF_MEMORY, ''out of memory'')"
  by (simp add: grub_gpt_header_check_def GRUB_GPT_HEADER_VERSION_def is_pow2_def
      grub_gpt_entries_size_def GRUB_GPT_DEFAULT_ENTRIES_SIZE_def grub_gpt_read_entries_def
      out_of_memory_def)

section \<open>Writing one copy (C9)\<close>

text \<open>
  C9, as the code has it. \<^verbatim>\<open>grub_gpt_write_table\<close> refuses a header whose headersize
  is not the native 92 with \<^verbatim>\<open>GRUB_ERR_NOT_IMPLEMENTED_YET\<close> and a header whose
  header_lba is 0 with \<^verbatim>\<open>GRUB_ERR_BUG\<close>, and in both cases writes nothing. It refuses
  the entry array with \<^verbatim>\<open>GRUB_ERR_BUG\<close> when partitions_lba is 0, or is 1 on a medium of
  512-byte sectors; by then the header of that copy has been handed to the device, and
  only the entry array is withheld.
\<close>

theorem write_table_refusals:
  "(unat (headersize h) \<noteq> 92 \<longrightarrow>
      grub_gpt_write_table disk gpt h =
        (Some (GRUB_ERR_NOT_IMPLEMENTED_YET, ''Header size is %u, must be %u''), [])) \<and>
   (unat (headersize h) = 92 \<and> header_lba h = 0 \<longrightarrow>
      grub_gpt_write_table disk gpt h =
        (Some (GRUB_ERR_BUG, ''Refusing to write GPT header to address 0x0''), [])) \<and>
   (unat (headersize h) = 92 \<and> grub_gpt_sector_to_addr gpt (header_lba h) \<noteq> 0 \<and>
    write_fault disk (grub_gpt_sector_to_addr gpt (header_lba h)) 92 = None \<and>
    partitions h < 2 \<and> (partitions h = 0 \<or> log_sector_size gpt = 9) \<longrightarrow>
      grub_gpt_write_table disk gpt h =
        (Some (GRUB_ERR_BUG, ''Refusing to write GPT entries to address 0x%llx''),
         [(grub_gpt_sector_to_addr gpt (header_lba h), header_bytes h)]))"
  by (auto simp: grub_gpt_write_table_def sizeof_header_def Let_def grub_disk_write_def)

theorem write_table_refusals_witness:
  "grub_gpt_write_table example_disk example_gpt zero_header =
     (Some (GRUB_ERR_NOT_IMPLEMENTED_YET, ''Header size is %u, must be %u''), []) \<and>
   grub_gpt_write_table example_disk example_gpt (example_primary\<lparr>header_lba := 0\<rparr>) =
     (Some (GRUB_ERR_BUG, ''Refusing to write GPT header to address 0x0''), []) \<and>
   grub_gpt_write_table example_disk example_gpt (example_primary\<lparr>partitions := 1\<rparr>) =
     (Some (GRUB_ERR_BUG, ''Refusing to write GPT entries to address 0x%llx''),
      [(1, header_bytes (example_primary\<lparr>partitions := 1\<rparr>))])"
  using write_table_refusals[of zero_header example_disk example_gpt]
    write_table_refusals[of "example_primary\<lparr>header_lba := 0\<rparr>" example_disk example_gpt]
    write_table_refusals[of "example_primary\<lparr>partitions := 1\<rparr>" example_disk example_gpt]
  by (simp add: example_disk_def word_less_nat_alt)

text \<open>
  The claim as stated ("in each refusal case nothing is written for that copy") fails for
  the sample primary header with partitions_lba 0: the entry array is refused after the
  header has been written.
\<close>

theorem write_table_header_written_counterexample:
  "fst (grub_gpt_write_table example_disk example_gpt (example_primary\<lparr>partitions := 0\<rparr>)) =
     Some (GRUB_ERR_BUG, ''Refusing to write GPT entries to address 0x%llx'') \<and>
   snd (grub_gpt_write_table example_disk example_gpt (example_primary\<lparr>partitions := 0\<rparr>)) \<noteq> []"
  by (simp add: grub_gpt_write_table_def sizeof_header_def Let_def grub_disk_write_def
      example_disk_def)

section \<open>Header lookup (C10)\<close>

text \<open>
  C10. For a handle with neither \<^verbatim>\<open>GRUB_GPT_PRIMARY_HEADER_VALID\<close> nor
  \<^verbatim>\<open>GRUB_GPT_BACKUP_HEADER_VALID\<close> set, \<^verbatim>\<open>grub_gpt_get_partentry\<close> returns NULL
  for every index and raises \<^verbatim>\<open>GRUB_ERR_BUG\<close> "No valid GPT header", and
  \<^verbatim>\<open>grub_gpt_disk_uuid\<close>, on such a handle, returns that same error and leaves the
  caller's string alone. When \<^verbatim>\<open>GRUB_GPT_PRIMARY_HEADER_VALID\<close> is set the primary
  header is the one consulted, whatever the backup bits are: by the lookup, by
  \<^verbatim>\<open>grub_gpt_get_partentry\<close> for the bound and the offset, and by
  \<^verbatim>\<open>grub_gpt_disk_uuid\<close> for the GUID it renders. The handle
  \<^verbatim>\<open>grub_gpt_disk_uuid\<close> works on is the one its own call of the reader returns.
\<close>

theorem header_queries:
  "(status gpt AND GRUB_GPT_PRIMARY_HEADER_VALID = 0 \<and>
    status gpt AND GRUB_GPT_BACKUP_HEADER_VALID = 0 \<longrightarrow>
      grub_gpt_get_partentry gpt n es =
        (None, es\<lparr>grub_errno := Some (GRUB_ERR_BUG, ''No valid GPT header'')\<rparr>) \<and>
      disk_uuid_of_handle env gpt uuid es =
        (Some (GRUB_ERR_BUG, ''No valid GPT header''), uuid,
         es\<lparr>grub_errno := Some (GRUB_ERR_BUG, ''No valid GPT header'')\<rparr>)) \<and>
   (status gpt AND GRUB_GPT_PRIMARY_HEADER_VALID \<noteq> 0 \<longrightarrow>
      grub_gpt_get_header gpt es = (Some PRIMARY, es) \<and>
      grub_gpt_get_partentry gpt n es =
        (if n \<ge> maxpart (primary gpt) then None
         else Some (ucast (partentry_size (primary gpt)) * ucast n), es) \<and>
      disk_uuid_of_handle env gpt uuid es =
        (case grub_gpt_guid_to_str env (guid (primary gpt)) of
           None \<Rightarrow> (Some (GRUB_ERR_OUT_OF_MEMORY, ''out of memory''), None,
                     es\<lparr>grub_errno := Some (GRUB_ERR_OUT_OF_MEMORY, ''out of memory'')\<rparr>)
         | Some str \<Rightarrow> (grub_errno es, Some str, es))) \<and>
   (grub_gpt_read env disk es0 = (Some gpt, es) \<longrightarrow>
      grub_gpt_disk_uuid env disk uuid es0 = disk_uuid_of_handle env gpt uuid es)"
proof (intro conjI impI)
  assume a: "status gpt AND GRUB_GPT_PRIMARY_HEADER_VALID = 0 \<and>
    status gpt AND GRUB_GPT_BACKUP_HEADER_VALID = 0"
  thus "grub_gpt_get_partentry gpt n es =
        (None, es\<lparr>grub_errno := Some (GRUB_ERR_BUG, ''No valid GPT header'')\<rparr>)"
    by (simp add: grub_gpt_get_partentry_def get_header_cases)
  from a show "disk_uuid_of_handle env gpt uuid es =
        (Some (GRUB_ERR_BUG, ''No valid GPT header''), uuid,
         es\<lparr>grub_errno := Some (GRUB_ERR_BUG, ''No valid GPT header'')\<rparr>)"
    by (simp add: disk_uuid_of_handle_def get_header_cases)
next
  assume "status gpt AND GRUB_GPT_PRIMARY_HEADER_VALID \<noteq> 0"
  thus "grub_gpt_get_header gpt es = (Some PRIMARY, es)"
    by (simp add: get_header_cases)
next
  assume "status gpt AND GRUB_GPT_PRIMARY_HEADER_VALID \<noteq> 0"
  thus "grub_gpt_get_partentry gpt n es =
        (if n \<ge> maxpart (primary gpt) then None
         else Some (ucast (partentry_size (primary gpt)) * ucast n), es)"
    by (simp add: grub_gpt_get_partentry_def get_header_cases)
next
  assume "status gpt AND GRUB_GPT_PRIMARY_HEADER_VALID \<noteq> 0"
  thus "disk_uuid_of_handle env gpt uuid es =
        (case grub_gpt_guid_to_str env (guid (primary gpt)) of
           None \<Rightarrow> (Some (GRUB_ERR_OUT_OF_MEMORY, ''out of memory''), None,
                     es\<lparr>grub_errno := Some (GRUB_ERR_OUT_OF_MEMORY, ''out of memory'')\<rparr>)
         | Some str \<Rightarrow> (grub_errno es, Some str, es))"
    by (simp add: disk_uuid_of_handle_def get_header_cases out_of_memory_def
        split: option.splits)
next
  assume "grub_gpt_read env disk es0 = (Some gpt, es)"
  thus "grub_gpt_disk_uuid env disk uuid es0 = disk_uuid_of_handle env gpt uuid es"
    by (simp add: grub_gpt_disk_uuid_def)
qed

theorem header_queries_witness:
  "grub_gpt_get_partentry zero_gpt 5 no_error =
     (None, no_error\<lparr>grub_errno := Some (GRUB_ERR_BUG, ''No valid GPT header'')\<rparr>) \<and>
   disk_uuid_of_handle example_env zero_gpt None no_error =
     (Some (GRUB_ERR_BUG, ''No valid GPT header''), None,
      no_error\<lparr>grub_errno := Some (GRUB_ERR_BUG, ''No valid GPT header'')\<rparr>) \<and>
   grub_gpt_get_partentry example_gpt 3 no_error = (Some 384, no_error) \<and>
   disk_uuid_of_handle example_env (example_gpt\<lparr>backup := zero_header\<rparr>) None no_error =
     (None, Some ''01234567-89ab-cdef-0102-030405060708'', no_error) \<and>
   grub_gpt_disk_uuid example_env example_disk None no_error =
     (None, Some ''01234567-89ab-cdef-0102-030405060708'', no_error)"
proof -
  have z: "status zero_gpt = 0" by (simp add: zero_gpt_def)
  have e: "grub_gpt_read example_env example_disk no_error = (Some example_gpt, no_error)"
    by (simp add: example_read_gpt no_error_def)
  have ne: "grub_errno no_error = None" by (simp add: no_error_def)
  have g: "guid example_primary = example_guid"
    by (simp add: example_primary_def)
  have one: "grub_gpt_get_partentry zero_gpt 5 no_error =
     (None, no_error\<lparr>grub_errno := Some (GRUB_ERR_BUG, ''No valid GPT header'')\<rparr>) \<and>
   disk_uuid_of_handle example_env zero_gpt None no_error =
     (Some (GRUB_ERR_BUG, ''No valid GPT header''), None,
      no_error\<lparr>grub_errno := Some (GRUB_ERR_BUG, ''No valid GPT header'')\<rparr>)"
    using header_queries[where gpt=zero_gpt and n=5 and es=no_error and env=example_env
        and uuid=None]
    by (simp add: z)
  have two: "grub_gpt_get_partentry example_gpt 3 no_error = (Some 384, no_error)"
    using header_queries[where gpt=example_gpt and n=3 and es=no_error]
    by (simp add: word_le_nat_alt)
  have three: "disk_uuid_of_handle example_env (example_gpt\<lparr>backup := zero_header\<rparr>) None
      no_error = (None, Some ''01234567-89ab-cdef-0102-030405060708'', no_error)"
    using header_queries[where gpt="example_gpt\<lparr>backup := zero_header\<rparr>" and es=no_error
        and env=example_env and uuid=None]
    by (simp add: example_guid_str ne g)
  have "disk_uuid_of_handle example_env example_gpt None no_error =
      (None, Some ''01234567-89ab-cdef-0102-030405060708'', no_error)"
    using header_queries[where gpt=example_gpt and es=no_error
        and env=example_env and uuid=None]
    by (simp add: example_guid_str ne g)
  hence four: "grub_gpt_disk_uuid example_env example_disk None no_error =
     (None, Some ''01234567-89ab-cdef-0102-030405060708'', no_error)"
    using header_queries[where gpt=example_gpt and es=no_error and ?es0.0=no_error
        and env=example_env and disk=example_disk and uuid=None] e
    by simp
  show ?thesis using one two three four by simp
qed

end
